theory Spec2Isabelle
  imports Complex_Main "HOL-Library.AList"
begin

section \<open>JavaScript values\<close>

text \<open>
  The dashboard keeps its data in untyped JavaScript objects (\<open>editedFields\<close> is declared
  \<open>any\<close>), so field values are modelled by a small universe of JavaScript values.
  Numbers are rationals plus \<open>NaN\<close> (what \<open>parseInt('')\<close> yields).  Objects are association
  lists in insertion order.
\<close>

datatype jsval =
    JUndefined
  | JNull
  | JBool bool
  | JNumber rat
  | JNaN
  | JString string
  | JArray "jsval list"
  | JObject "(string \<times> jsval) list"

text \<open>Truthiness, as used by \<open>x ? a : b\<close>, \<open>x && y\<close> and \<open>x || y\<close>.\<close>

fun truthy :: "jsval \<Rightarrow> bool" where
  "truthy JUndefined = False"
| "truthy JNull = False"
| "truthy (JBool b) = b"
| "truthy (JNumber n) = (n \<noteq> 0)"
| "truthy JNaN = False"
| "truthy (JString s) = (s \<noteq> [])"
| "truthy (JArray xs) = True"
| "truthy (JObject kvs) = True"

text \<open>The nullish-coalescing operator \<open>a ?? b\<close>.\<close>

fun nullish :: "jsval \<Rightarrow> bool" where
  "nullish JUndefined = True"
| "nullish JNull = True"
| "nullish v = False"

definition coalesce :: "jsval \<Rightarrow> jsval \<Rightarrow> jsval" where
  "coalesce a b = (if nullish a then b else a)"

text \<open>Property read \<open>obj.k\<close> on an object literal: a missing key reads as \<open>undefined\<close>.\<close>

definition js_prop :: "(string \<times> jsval) list \<Rightarrow> string \<Rightarrow> jsval" where
  "js_prop obj k = (case map_of obj k of None \<Rightarrow> JUndefined | Some v \<Rightarrow> v)"

text \<open>
  \<open>String.prototype.trim\<close>.  A \<open>char\<close> stands for one code unit in the range
  U+0000 to U+00FF; the white space and line terminator characters of that range are
  tab, line feed, vertical tab, form feed, carriage return, space and no-break space.
\<close>

definition is_space :: "char \<Rightarrow> bool" where
  "is_space c = (c = CHR '' '' \<or> c = CHR 0x09 \<or> c = CHR 0x0A \<or> c = CHR 0x0B
                 \<or> c = CHR 0x0C \<or> c = CHR 0x0D \<or> c = CHR 0xA0)"

definition trim :: "string \<Rightarrow> string" where
  "trim s = rev (dropWhile is_space (rev (dropWhile is_space s)))"

text \<open>
  What a rejected promise carries: an \<open>Error\<close> object with its message, or some other
  thrown value.  The handlers print \<open>error instanceof Error ? error.message : dflt\<close>.
\<close>

datatype thrown = Error string | NonError

fun err_message :: "thrown \<Rightarrow> string \<Rightarrow> string" where
  "err_message (Error m) dflt = m"
| "err_message NonError dflt = dflt"

section \<open>Backend data\<close>

text \<open>
  The \<open>Recipe\<close> type lives in \<open>@/types/recipeAdmin\<close>; the record below has the
  properties that the two components read.  The property \<open>id\<close> is named \<open>recipe_id\<close>.
\<close>

record Recipe =
  recipe_id :: jsval
  name :: jsval
  description :: jsval
  region :: jsval
  difficulty :: jsval
  prep_time_minutes :: jsval
  cook_time_minutes :: jsval
  servings :: jsval
  calories :: jsval
  rating :: jsval
  ingredients :: jsval
  image_url :: jsval
  ingredients_image :: jsval
  step_image_urls :: jsval
  validation_status :: jsval

text \<open>Property read \<open>recipe[k]\<close> by key.\<close>

definition recipe_props :: "Recipe \<Rightarrow> (string \<times> jsval) list" where
  "recipe_props r =
     [(''id'', recipe_id r), (''name'', name r), (''description'', description r),
      (''region'', region r), (''difficulty'', difficulty r),
      (''prep_time_minutes'', prep_time_minutes r),
      (''cook_time_minutes'', cook_time_minutes r), (''servings'', servings r),
      (''calories'', calories r), (''rating'', rating r), (''ingredients'', ingredients r),
      (''image_url'', image_url r), (''ingredients_image'', ingredients_image r),
      (''step_image_urls'', step_image_urls r),
      (''validation_status'', validation_status r)]"

definition get_field :: "Recipe \<Rightarrow> string \<Rightarrow> jsval" where
  "get_field r k = js_prop (recipe_props r) k"

record missing_data =
  main_images :: int
  ingredients_images :: int
  steps_images :: int
  steps_beginner :: int

record RecipeStatistics =
  total_recipes :: int
  missing :: missing_data

section \<open>Observable effects\<close>

text \<open>
  Every handler returns the new component state together with the list of effects it
  performed, in order: calls of the API service, browser alerts, console output and timer
  operations.
\<close>

datatype event =
    ListRecipes int int "string option"
  | GetStatistics
  | SearchRecipes string
  | UpdateRecipe jsval "(string \<times> jsval) list"
  | StartSpecificGeneration jsval bool bool bool bool bool
  | FetchJobs
  | GetJobLogs jsval int
  | Alert string
  | ConsoleLog
  | ConsoleError
  | SetInterval nat
  | ClearInterval

section \<open>DataManagerTab\<close>

text \<open>
  The hooks of the component.  A handler is modelled as one step from the state in which
  it is invoked to the state after its last update, with the answer of the backend as an
  argument: \<open>Inl\<close> for a rejected promise, \<open>Inr\<close> for the data of a fulfilled one.
\<close>

record dm_state =
  recipes :: "Recipe list"
  statistics :: "RecipeStatistics option"
  selectedRecipe :: "Recipe option"
  isEditing :: bool
  editedFields :: "(string \<times> jsval) list"
  page :: int
  loading :: bool
  filter_val :: string
  searchQuery :: string
  searchResults :: "Recipe list"
  isSearching :: bool

definition dm_init :: dm_state where
  "dm_init = \<lparr>recipes = [], statistics = None, selectedRecipe = None, isEditing = False,
     editedFields = [], page = 0, loading = False, filter_val = [], searchQuery = [],
     searchResults = [], isSearching = False\<rparr>"

definition PAGE_SIZE :: int where
  "PAGE_SIZE = 20"

text \<open>\<open>validation_status: filter || undefined\<close>\<close>

definition filter_param :: "string \<Rightarrow> string option" where
  "filter_param f = (if f = [] then None else Some f)"

definition loadRecipes :: "thrown + Recipe list \<Rightarrow> dm_state \<Rightarrow> dm_state \<times> event list" where
  "loadRecipes resp s =
     (let call = ListRecipes (page s * PAGE_SIZE) PAGE_SIZE (filter_param (filter_val s)) in
      case resp of
        Inr rs \<Rightarrow> (s\<lparr>recipes := rs, loading := False\<rparr>, [ConsoleLog, call, ConsoleLog])
      | Inl e \<Rightarrow>
          (s\<lparr>loading := False\<rparr>,
           [ConsoleLog, call, ConsoleError,
            Alert (''Failed to load recipes: '' @ err_message e ''Unknown error'')]))"

definition loadStatistics ::
    "thrown + RecipeStatistics \<Rightarrow> dm_state \<Rightarrow> dm_state \<times> event list" where
  "loadStatistics resp s =
     (case resp of
        Inr st \<Rightarrow> (s\<lparr>statistics := Some st\<rparr>, [GetStatistics])
      | Inl e \<Rightarrow> (s, [GetStatistics, ConsoleError]))"

definition handleSearch :: "thrown + Recipe list \<Rightarrow> dm_state \<Rightarrow> dm_state \<times> event list" where
  "handleSearch resp s =
     (if trim (searchQuery s) = [] then (s\<lparr>searchResults := [], isSearching := False\<rparr>, [])
      else
        (case resp of
           Inr rs \<Rightarrow>
             (s\<lparr>isSearching := True, searchResults := rs, loading := False\<rparr>,
              [SearchRecipes (searchQuery s)])
         | Inl e \<Rightarrow>
             (s\<lparr>isSearching := True, loading := False\<rparr>,
              [SearchRecipes (searchQuery s), ConsoleError,
               Alert (''Search failed: '' @ err_message e ''Unknown error'')])))"

definition clearSearch :: "dm_state \<Rightarrow> dm_state" where
  "clearSearch s = s\<lparr>searchQuery := [], searchResults := [], isSearching := False\<rparr>"

definition handleSave ::
    "thrown + unit \<Rightarrow> thrown + Recipe list \<Rightarrow> dm_state \<Rightarrow> dm_state \<times> event list" where
  "handleSave upd lst s =
     (case selectedRecipe s of
        None \<Rightarrow> (s, [])
      | Some r \<Rightarrow>
          if length (map fst (editedFields s)) = 0 then (s, [])
          else
            (case upd of
               Inr u \<Rightarrow>
                 (let (s', evs) = loadRecipes lst (s\<lparr>isEditing := False, editedFields := []\<rparr>)
                  in (s', [UpdateRecipe (recipe_id r) (editedFields s),
                           Alert ''Recipe updated successfully!''] @ evs))
             | Inl e \<Rightarrow>
                 (s, [UpdateRecipe (recipe_id r) (editedFields s),
                      Alert (''Failed to update: '' @ err_message e ''Unknown error'')])))"

subsection \<open>Controls of the data manager\<close>

text \<open>
  The list shown is \<open>isSearching ? searchResults : recipes\<close>.  The status filter and the
  pagination bar are rendered only under \<open>!isSearching\<close>; the two pagination buttons
  carry the \<open>disabled\<close> attributes below.
\<close>

definition displayed_list :: "dm_state \<Rightarrow> Recipe list" where
  "displayed_list s = (if isSearching s then searchResults s else recipes s)"

definition filter_rendered :: "dm_state \<Rightarrow> bool" where
  "filter_rendered s = (\<not> isSearching s)"

definition pagination_rendered :: "dm_state \<Rightarrow> bool" where
  "pagination_rendered s = (\<not> isSearching s)"

definition previous_disabled :: "dm_state \<Rightarrow> bool" where
  "previous_disabled s = (page s = 0)"

definition next_disabled :: "dm_state \<Rightarrow> bool" where
  "next_disabled s = (int (length (recipes s)) < PAGE_SIZE)"

text \<open>
  \<open>useEffect(() => { loadRecipes(); loadStatistics(); }, [page, filter])\<close>: both loaders
  run on mount and again after every render in which \<open>page\<close> or \<open>filter\<close> changed.  They
  write disjoint parts of the state, so they are run one after the other here.
\<close>

definition reload_effect ::
    "thrown + Recipe list \<Rightarrow> thrown + RecipeStatistics \<Rightarrow> dm_state \<Rightarrow> dm_state \<times> event list"
  where
  "reload_effect lst st s =
     (let (s1, e1) = loadRecipes lst s; (s2, e2) = loadStatistics st s1 in (s2, e1 @ e2))"

definition set_page_filter ::
    "int \<Rightarrow> string \<Rightarrow> thrown + Recipe list \<Rightarrow> thrown + RecipeStatistics \<Rightarrow> dm_state
      \<Rightarrow> dm_state \<times> event list" where
  "set_page_filter p f lst st s =
     (if p = page s \<and> f = filter_val s then (s, [])
      else reload_effect lst st (s\<lparr>page := p, filter_val := f\<rparr>))"

text \<open>\<open>onClick={() => setPage(Math.max(0, page - 1))}\<close>, \<open>disabled={page === 0}\<close>\<close>

definition click_previous ::
    "thrown + Recipe list \<Rightarrow> thrown + RecipeStatistics \<Rightarrow> dm_state \<Rightarrow> dm_state \<times> event list"
  where
  "click_previous lst st s =
     (if \<not> pagination_rendered s \<or> previous_disabled s then (s, [])
      else set_page_filter (max 0 (page s - 1)) (filter_val s) lst st s)"

text \<open>\<open>onClick={() => setPage(page + 1)}\<close>, \<open>disabled={recipes.length < PAGE_SIZE}\<close>\<close>

definition click_next ::
    "thrown + Recipe list \<Rightarrow> thrown + RecipeStatistics \<Rightarrow> dm_state \<Rightarrow> dm_state \<times> event list"
  where
  "click_next lst st s =
     (if \<not> pagination_rendered s \<or> next_disabled s then (s, [])
      else set_page_filter (page s + 1) (filter_val s) lst st s)"

text \<open>\<open>onChange={(e) => { setFilter(e.target.value); setPage(0); }}\<close>\<close>

definition change_filter ::
    "string \<Rightarrow> thrown + Recipe list \<Rightarrow> thrown + RecipeStatistics \<Rightarrow> dm_state
      \<Rightarrow> dm_state \<times> event list" where
  "change_filter v lst st s =
     (if \<not> filter_rendered s then (s, []) else set_page_filter 0 v lst st s)"

text \<open>
  The Edit button (shown for a selected recipe while \<open>!isEditing\<close>) fills the overlay
  with the nine basic fields of the selected recipe.
\<close>

definition click_edit :: "dm_state \<Rightarrow> dm_state" where
  "click_edit s =
     (case selectedRecipe s of
        None \<Rightarrow> s
      | Some r \<Rightarrow>
          if isEditing s then s
          else s\<lparr>isEditing := True,
                 editedFields :=
                   [(''name'', name r), (''description'', description r),
                    (''region'', region r), (''difficulty'', difficulty r),
                    (''prep_time_minutes'', prep_time_minutes r),
                    (''cook_time_minutes'', cook_time_minutes r),
                    (''servings'', servings r), (''calories'', calories r),
                    (''rating'', rating r)]\<rparr>)"

text \<open>
  Every form control of the editor ends in \<open>setEditedFields({...editedFields, k: v})\<close>;
  the controls exist only while a recipe is selected and \<open>isEditing\<close> holds.
\<close>

definition set_field :: "string \<Rightarrow> jsval \<Rightarrow> dm_state \<Rightarrow> dm_state" where
  "set_field k v s =
     (if selectedRecipe s = None \<or> \<not> isEditing s then s
      else s\<lparr>editedFields := AList.update k v (editedFields s)\<rparr>)"

definition click_cancel :: "dm_state \<Rightarrow> dm_state" where
  "click_cancel s =
     (if selectedRecipe s = None \<or> \<not> isEditing s then s
      else s\<lparr>isEditing := False, editedFields := []\<rparr>)"

definition click_save ::
    "thrown + unit \<Rightarrow> thrown + Recipe list \<Rightarrow> dm_state \<Rightarrow> dm_state \<times> event list" where
  "click_save upd lst s =
     (if selectedRecipe s = None \<or> \<not> isEditing s then (s, []) else handleSave upd lst s)"

text \<open>
  The Save button is rendered inside \<open>selectedRecipe && (...)\<close>, in the branch taken
  while \<open>isEditing\<close> holds.
\<close>

definition save_rendered :: "dm_state \<Rightarrow> bool" where
  "save_rendered s = (selectedRecipe s \<noteq> None \<and> isEditing s)"

text \<open>Click on the \<open>i\<close>-th row of the displayed list: \<open>setSelectedRecipe(recipe)\<close>.\<close>

definition select_recipe :: "nat \<Rightarrow> dm_state \<Rightarrow> dm_state" where
  "select_recipe i s =
     (if i < length (displayed_list s) then s\<lparr>selectedRecipe := Some (displayed_list s ! i)\<rparr>
      else s)"

datatype dm_action =
    Mount "thrown + Recipe list" "thrown + RecipeStatistics"
  | ChangeFilter string "thrown + Recipe list" "thrown + RecipeStatistics"
  | ClickPrevious "thrown + Recipe list" "thrown + RecipeStatistics"
  | ClickNext "thrown + Recipe list" "thrown + RecipeStatistics"
  | TypeSearch string
  | SubmitSearch "thrown + Recipe list"
  | ClickClearSearch
  | SelectRecipe nat
  | ClickEdit
  | SetField string jsval
  | ClickSave "thrown + unit" "thrown + Recipe list"
  | ClickCancel

fun dm_step :: "dm_action \<Rightarrow> dm_state \<Rightarrow> dm_state \<times> event list" where
  "dm_step (Mount lst st) s = reload_effect lst st s"
| "dm_step (ChangeFilter v lst st) s = change_filter v lst st s"
| "dm_step (ClickPrevious lst st) s = click_previous lst st s"
| "dm_step (ClickNext lst st) s = click_next lst st s"
| "dm_step (TypeSearch q) s = (s\<lparr>searchQuery := q\<rparr>, [])"
| "dm_step (SubmitSearch resp) s = handleSearch resp s"
| "dm_step ClickClearSearch s = ((if isSearching s then clearSearch s else s), [])"
| "dm_step (SelectRecipe i) s = (select_recipe i s, [])"
| "dm_step ClickEdit s = (click_edit s, [])"
| "dm_step (SetField k v) s = (set_field k v s, [])"
| "dm_step (ClickSave upd lst) s = click_save upd lst s"
| "dm_step ClickCancel s = (click_cancel s, [])"

fun dm_run :: "dm_action list \<Rightarrow> dm_state \<Rightarrow> dm_state \<times> event list" where
  "dm_run [] s = (s, [])"
| "dm_run (a # as) s =
     (let (s1, e1) = dm_step a s; (s2, e2) = dm_run as s1 in (s2, e1 @ e2))"

subsection \<open>Recipe images and their error handlers\<close>

text \<open>
  The places of the nine \<open><img>\<close> elements of the detail panel, in source order.
\<close>

datatype img_site =
    EditMainPreview
  | ViewMainImage
  | EditIngredientsPreview
  | ViewIngredientsImage
  | EditStepThumb
  | ViewStepImage
  | StatusMainImage
  | StatusIngredientsImage
  | StatusStepImage

text \<open>
  An \<open><img>\<close> element as rendered: where it stands in the source, its \<open>src\<close>
  attribute, and its \<open>onError\<close> attribute.  All handlers in the file have the same shape,
  \<open>(e) => { (e.target as HTMLImageElement).src = '...'; }\<close>, so a handler is given by the
  string it assigns; \<open>None\<close> is an element without the attribute.
\<close>

record img =
  site :: img_site
  src :: jsval
  onError :: "string option"

definition svg_open :: string where
  \<open>svg_open = ''data:image/svg+xml,<svg xmlns="http://www.w3.org/2000/svg" width="100" height="100"><text x="50%" y="50%" text-anchor="middle" dy=".3em" fill="%23666">''\<close>

definition svg_open_small :: string where
  \<open>svg_open_small = ''data:image/svg+xml,<svg xmlns="http://www.w3.org/2000/svg" width="50" height="50"><text x="50%" y="50%" text-anchor="middle" dy=".3em" fill="%23666" font-size="10">''\<close>

definition svg_close :: string where
  "svg_close = ''</text></svg>''"

text \<open>
  The body of a handler, run on an error event with the given target: the assignment
  \<open>e.target.src = p\<close> throws a \<open>TypeError\<close> when the target is null and has no other way
  to fail.
\<close>

datatype js_exn = TypeError

definition assign_src :: "string \<Rightarrow> img option \<Rightarrow> js_exn + img" where
  "assign_src p target =
     (case target of None \<Rightarrow> Inl TypeError | Some el \<Rightarrow> Inr (el\<lparr>src := JString p\<rparr>))"

text \<open>
  The error event of an element whose URL failed to load: the event's target is the
  element itself; without a handler nothing happens.
\<close>

definition fire_error :: "img \<Rightarrow> js_exn + img" where
  "fire_error el =
     (case onError el of None \<Rightarrow> Inr el | Some p \<Rightarrow> assign_src p (Some el))"

text \<open>The elements of an array-valued property (\<open>x ?? []\<close> for a missing one).\<close>

fun js_list :: "jsval \<Rightarrow> jsval list" where
  "js_list (JArray xs) = xs"
| "js_list v = []"

text \<open>\<open>u && <img src={u} onError={h} />\<close>\<close>

definition one_img :: "img_site \<Rightarrow> string option \<Rightarrow> jsval \<Rightarrow> img list" where
  "one_img st h u = (if truthy u then [\<lparr>site = st, src = u, onError = h\<rparr>] else [])"

text \<open>The images rendered for a state, top to bottom, each with its own handler.\<close>

definition displayed_images :: "dm_state \<Rightarrow> img list" where
  "displayed_images s =
     (case selectedRecipe s of
        None \<Rightarrow> []
      | Some r \<Rightarrow>
          (let ef = editedFields s; urls = step_image_urls r in
           (if isEditing s
            then one_img EditMainPreview (Some (svg_open @ ''Invalid URL'' @ svg_close))
                   (coalesce (js_prop ef ''image_url'') (image_url r))
            else one_img ViewMainImage (Some (svg_open @ ''Error Loading'' @ svg_close))
                   (image_url r))
           @ (if isEditing s
              then one_img EditIngredientsPreview
                     (Some (svg_open @ ''Invalid URL'' @ svg_close))
                     (coalesce (js_prop ef ''ingredients_image'') (ingredients_image r))
              else one_img ViewIngredientsImage
                     (Some (svg_open @ ''Error Loading'' @ svg_close))
                     (ingredients_image r))
           @ (if isEditing s
              then concat (map (one_img EditStepThumb
                                  (Some (svg_open_small @ ''!'' @ svg_close)))
                     (js_list (coalesce (coalesce (js_prop ef ''step_image_urls'') urls)
                                 (JArray []))))
              else if truthy urls \<and> length (js_list urls) > 0
                   then map (\<lambda>u. \<lparr>site = ViewStepImage, src = u,
                                    onError = Some (svg_open @ ''!'' @ svg_close)\<rparr>)
                          (js_list urls)
                   else [])
           @ one_img StatusMainImage (Some (svg_open @ ''No Image'' @ svg_close)) (image_url r)
           @ one_img StatusIngredientsImage (Some (svg_open @ ''No Image'' @ svg_close))
               (ingredients_image r)
           @ (if truthy urls \<and> length (js_list urls) > 0
              then map (\<lambda>u. \<lparr>site = StatusStepImage, src = u,
                               onError = Some (svg_open @ ''Error'' @ svg_close)\<rparr>)
                     (take 6 (js_list urls))
              else [])))"

section \<open>SpecificGenerationTab\<close>

record GenerationJob =
  job_id :: jsval
  status :: string

record RegenerationLog =
  log_id :: jsval
  log_level :: string
  log_message :: string
  created_at :: string

datatype message_type = success | error

text \<open>
  The component state.  Four hooks share their names with hooks of the data manager and
  carry the suffix \<open>_sg\<close> here.  \<open>interval\<close> is the timer created by
  \<open>setInterval\<close> in \<open>handleGenerate\<close>: \<open>Some d\<close> while a timer with period \<open>d\<close>
  milliseconds is registered, \<open>None\<close> before it is set and after \<open>clearInterval\<close>.
\<close>

record sg_state =
  searchQuery_sg :: string
  searchResults_sg :: "Recipe list"
  selectedRecipe_sg :: "Recipe option"
  isSearching_sg :: bool
  isGenerating :: bool
  logs :: "RegenerationLog list"
  message :: "(message_type \<times> string) option"
  fixMainImage :: bool
  fixIngredientsImage :: bool
  fixStepsImages :: bool
  fixStepsText :: bool
  fixIngredientsText :: bool
  interval :: "nat option"

definition sg_init :: sg_state where
  "sg_init = \<lparr>searchQuery_sg = [], searchResults_sg = [], selectedRecipe_sg = None,
     isSearching_sg = False, isGenerating = False, logs = [], message = None,
     fixMainImage = False, fixIngredientsImage = False, fixStepsImages = False,
     fixStepsText = False, fixIngredientsText = False, interval = None\<rparr>"

definition handleSearch_sg ::
    "thrown + Recipe list \<Rightarrow> sg_state \<Rightarrow> sg_state \<times> event list" where
  "handleSearch_sg resp s =
     (if trim (searchQuery_sg s) = [] then (s, [])
      else
        (case resp of
           Inr rs \<Rightarrow>
             (s\<lparr>searchResults_sg := rs,
                message := (if length rs = 0
                            then Some (error, ''No recipes found matching your search'')
                            else message s),
                isSearching_sg := False\<rparr>,
              [SearchRecipes (searchQuery_sg s)])
         | Inl e \<Rightarrow>
             (s\<lparr>message := Some (error, err_message e ''Search failed''),
                isSearching_sg := False\<rparr>,
              [SearchRecipes (searchQuery_sg s)])))"

definition POLL_MS :: nat where
  "POLL_MS = 2000"

definition handleGenerate :: "thrown + unit \<Rightarrow> sg_state \<Rightarrow> sg_state \<times> event list" where
  "handleGenerate resp s =
     (case selectedRecipe_sg s of
        None \<Rightarrow> (s, [])
      | Some r \<Rightarrow>
          (let s1 = s\<lparr>isGenerating := True, logs := [], message := None\<rparr>;
               call = StartSpecificGeneration (name r) (fixMainImage s) (fixIngredientsImage s)
                        (fixStepsImages s) (fixStepsText s) (fixIngredientsText s)
           in case resp of
                Inr u \<Rightarrow> (s1\<lparr>interval := Some POLL_MS\<rparr>, [call, SetInterval POLL_MS])
              | Inl e \<Rightarrow>
                  (s1\<lparr>message := Some (error, err_message e ''Generation failed''),
                      isGenerating := False\<rparr>,
                   [call])))"





text \<open>
  The message banner \<open>{message && (<div>...{message.text}</div>)}\<close> stands inside the
  fragment guarded by \<open>selectedRecipe && (...)\<close>: what it shows, if anything.
\<close>

definition message_banner :: "sg_state \<Rightarrow> (message_type \<times> string) option" where
  "message_banner s = (case selectedRecipe_sg s of None \<Rightarrow> None | Some r \<Rightarrow> message s)"

subsection \<open>The polling timer\<close>

text \<open>
  What the backend answers during one run of the timer callback: the body of the jobs
  request (\<open>None\<close> when it has no \<open>jobs\<close> property), and the answer of the logs request,
  which is made only when there is a latest job.  A rejected promise is \<open>Inl\<close>.
\<close>

record tick_env =
  jobs_resp :: "thrown + GenerationJob list option"
  logs_resp :: "thrown + RegenerationLog list"

definition terminal :: "string \<Rightarrow> bool" where
  "terminal st = (st \<in> set [''completed'', ''failed'', ''cancelled''])"

definition finish_message :: "string \<Rightarrow> message_type \<times> string" where
  "finish_message st =
     (if st = ''completed'' then (success, ''Recipe updated successfully!'')
      else (error, ''Generation failed. Check logs for details.''))"

text \<open>One run of the callback given to \<open>setInterval\<close>.\<close>

definition poll_tick :: "tick_env \<Rightarrow> sg_state \<Rightarrow> sg_state \<times> event list" where
  "poll_tick env s =
     (case jobs_resp env of
        Inl e \<Rightarrow> (s, [FetchJobs, ConsoleError])
      | Inr None \<Rightarrow> (s, [FetchJobs])
      | Inr (Some []) \<Rightarrow> (s, [FetchJobs])
      | Inr (Some (latestJob # rest)) \<Rightarrow>
          (case logs_resp env of
             Inl e \<Rightarrow> (s, [FetchJobs, GetJobLogs (job_id latestJob) 20, ConsoleError])
           | Inr ls \<Rightarrow>
               if terminal (status latestJob)
               then (s\<lparr>logs := ls, interval := None, isGenerating := False,
                       message := Some (finish_message (status latestJob))\<rparr>,
                     [FetchJobs, GetJobLogs (job_id latestJob) 20, ClearInterval])
               else (s\<lparr>logs := ls\<rparr>, [FetchJobs, GetJobLogs (job_id latestJob) 20])))"

text \<open>
  The timer: while an interval with period \<open>d\<close> is registered, the callback runs at
  \<open>t + d\<close>, \<open>t + 2 * d\<close>, ...; each run is taken to finish before the next one starts.
  The result lists the effects with the time of the run that caused them.  One element
  of the list of environments is consumed per run.
\<close>

fun poll_run :: "nat \<Rightarrow> tick_env list \<Rightarrow> sg_state \<Rightarrow> sg_state \<times> (nat \<times> event) list" where
  "poll_run t [] s = (s, [])"
| "poll_run t (env # envs) s =
     (case interval s of
        None \<Rightarrow> (s, [])
      | Some d \<Rightarrow>
          (let (s1, e1) = poll_tick env s;
               (s2, e2) = poll_run (t + d) envs s1
           in (s2, map (Pair (t + d)) e1 @ e2)))"

section \<open>Reading the effect lists\<close>

text \<open>The bodies passed to the update endpoint, the alerts shown, and the API calls.\<close>

fun update_bodies :: "event list \<Rightarrow> (string \<times> jsval) list list" where
  "update_bodies [] = []"
| "update_bodies (UpdateRecipe i b # es) = b # update_bodies es"
| "update_bodies (e # es) = update_bodies es"

fun alerts :: "event list \<Rightarrow> string list" where
  "alerts [] = []"
| "alerts (Alert m # es) = m # alerts es"
| "alerts (e # es) = alerts es"

fun is_call :: "event \<Rightarrow> bool" where
  "is_call (ListRecipes sk n f) = True"
| "is_call GetStatistics = True"
| "is_call (SearchRecipes q) = True"
| "is_call (UpdateRecipe i b) = True"
| "is_call (StartSpecificGeneration n a b c d e) = True"
| "is_call FetchJobs = True"
| "is_call (GetJobLogs i n) = True"
| "is_call e = False"

definition api_calls :: "event list \<Rightarrow> event list" where
  "api_calls es = filter is_call es"

text \<open>The skip offsets sent to the list endpoint.\<close>

fun skips :: "event list \<Rightarrow> int list" where
  "skips [] = []"
| "skips (ListRecipes sk n f # es) = sk # skips es"
| "skips (e # es) = skips es"

text \<open>The overlay entries whose value equals the value of the same field in a record.\<close>

definition unchanged_entries :: "Recipe \<Rightarrow> (string \<times> jsval) list \<Rightarrow> (string \<times> jsval) list"
  where
  "unchanged_entries r body = filter (\<lambda>kv. snd kv = get_field r (fst kv)) body"

text \<open>The overlay entries whose value differs from the value of that field in a record.\<close>

definition changed_entries :: "Recipe \<Rightarrow> (string \<times> jsval) list \<Rightarrow> (string \<times> jsval) list"
  where
  "changed_entries r body = filter (\<lambda>kv. snd kv \<noteq> get_field r (fst kv)) body"

text \<open>The times at which the jobs endpoint was fetched, and all fetches of a run.\<close>

definition job_fetch_times :: "(nat \<times> event) list \<Rightarrow> nat list" where
  "job_fetch_times tes = map fst (filter (\<lambda>te. snd te = FetchJobs) tes)"

text \<open>
  A callback run reaches \<open>clearInterval\<close> exactly when the jobs request yields a latest
  job with a terminal status and the logs request of the same run succeeds.
\<close>

definition stops :: "tick_env \<Rightarrow> bool" where
  "stops env =
     (case jobs_resp env of
        Inr (Some (latestJob # rest)) \<Rightarrow>
          (case logs_resp env of Inr ls \<Rightarrow> terminal (status latestJob) | Inl e \<Rightarrow> False)
      | _ \<Rightarrow> False)"

section \<open>Sample data\<close>

definition recipe_ex :: Recipe where
  "recipe_ex = \<lparr>recipe_id = JNumber 7, name = JString ''Dal'', description = JString ''Lentils'',
     region = JString ''North Indian'', difficulty = JString ''Easy'',
     prep_time_minutes = JNumber 10, cook_time_minutes = JNumber 30, servings = JNumber 4,
     calories = JNumber 250, rating = JNumber 4, ingredients = JArray [],
     image_url = JString ''http://x/dal.jpg'', ingredients_image = JNull,
     step_image_urls = JArray [JString ''http://x/s1.jpg''],
     validation_status = JString ''pending''\<rparr>"

definition selected_ex :: dm_state where
  "selected_ex = dm_init\<lparr>recipes := [recipe_ex], selectedRecipe := Some recipe_ex\<rparr>"

definition sg_ready :: sg_state where
  "sg_ready = sg_init\<lparr>selectedRecipe_sg := Some recipe_ex, fixMainImage := True\<rparr>"

definition log_a :: RegenerationLog where
  "log_a = \<lparr>log_id = JNumber 1, log_level = ''INFO'', log_message = ''started'',
     created_at = ''2025-01-01T00:00:00''\<rparr>"

definition log_b :: RegenerationLog where
  "log_b = \<lparr>log_id = JNumber 2, log_level = ''SUCCESS'', log_message = ''done'',
     created_at = ''2025-01-01T00:00:02''\<rparr>"

definition job_running :: GenerationJob where
  "job_running = \<lparr>job_id = JNumber 1, status = ''running''\<rparr>"

definition job_completed :: GenerationJob where
  "job_completed = \<lparr>job_id = JNumber 1, status = ''completed''\<rparr>"

definition full_page :: "Recipe list" where
  "full_page = replicate 20 recipe_ex"

text \<open>Mount, filter by status, go to the second page, then search by name.\<close>

definition browse_then_search :: "dm_action list" where
  "browse_then_search =
     [Mount (Inr full_page) (Inl NonError),
      ChangeFilter ''pending'' (Inr full_page) (Inl NonError),
      ClickNext (Inr full_page) (Inl NonError),
      TypeSearch ''dal'',
      SubmitSearch (Inr [recipe_ex])]"

text \<open>Mount, go to the second page, come back.\<close>

definition browse_back :: "dm_action list" where
  "browse_back =
     [Mount (Inr full_page) (Inl NonError),
      ClickNext (Inr full_page) (Inl NonError),
      ClickPrevious (Inr full_page) (Inl NonError)]"

text \<open>Mount, select the first recipe, press Edit; then press Save at once.\<close>

definition open_editor :: "dm_action list" where
  "open_editor = [Mount (Inr [recipe_ex]) (Inl NonError), SelectRecipe 0, ClickEdit]"

definition edit_then_save :: "dm_action list" where
  "edit_then_save = open_editor @ [ClickSave (Inr ()) (Inr [recipe_ex])]"

text \<open>A generation that has just been started, and some backend answers to its polls.\<close>

definition polling_ex :: sg_state where
  "polling_ex = fst (handleGenerate (Inr ()) sg_ready)"

definition env_running_a :: tick_env where
  "env_running_a = \<lparr>jobs_resp = Inr (Some [job_running]), logs_resp = Inr [log_a]\<rparr>"

definition env_running_b :: tick_env where
  "env_running_b = \<lparr>jobs_resp = Inr (Some [job_running]), logs_resp = Inr [log_b]\<rparr>"

definition env_done :: tick_env where
  "env_done = \<lparr>jobs_resp = Inr (Some [job_completed]), logs_resp = Inr [log_a, log_b]\<rparr>"

definition env_done_logs_fail :: tick_env where
  "env_done_logs_fail =
     \<lparr>jobs_resp = Inr (Some [job_completed]), logs_resp = Inl (Error ''Failed to fetch'')\<rparr>"

section \<open>Properties\<close>

subsection \<open>Helper facts about the loaders\<close>

lemma loadRecipes_skips: "skips (snd (loadRecipes lst s)) = [page s * PAGE_SIZE]"
  by (cases lst) (simp_all add: loadRecipes_def Let_def)

lemma loadRecipes_calls:
  "api_calls (snd (loadRecipes lst s))
     = [ListRecipes (page s * PAGE_SIZE) PAGE_SIZE (filter_param (filter_val s))]"
  by (cases lst) (simp_all add: loadRecipes_def api_calls_def Let_def)

lemma click_edit_overlay:
  "selectedRecipe s = Some r \<Longrightarrow> \<not> isEditing s \<Longrightarrow>
     map fst (editedFields (click_edit s))
       = [''name'', ''description'', ''region'', ''difficulty'', ''prep_time_minutes'',
          ''cook_time_minutes'', ''servings'', ''calories'', ''rating'']
     \<and> unchanged_entries r (editedFields (click_edit s)) = editedFields (click_edit s)"
  by (simp add: click_edit_def unchanged_entries_def get_field_def recipe_props_def js_prop_def)

subsection \<open>The recipe editor\<close>

text \<open>
  C1, as stated, fails: pressing Edit and then Save on the sample recipe sends one update
  whose body holds all nine basic fields, each with exactly the value of the selected
  record, so no key sent differs from the original.
\<close>

theorem save_after_edit_sends_unchanged:
  "update_bodies (snd (handleSave (Inr ()) (Inr [recipe_ex]) (click_edit selected_ex)))
     = [[(''name'', JString ''Dal''), (''description'', JString ''Lentils''),
         (''region'', JString ''North Indian''), (''difficulty'', JString ''Easy''),
         (''prep_time_minutes'', JNumber 10), (''cook_time_minutes'', JNumber 30),
         (''servings'', JNumber 4), (''calories'', JNumber 250), (''rating'', JNumber 4)]]
   \<and> unchanged_entries recipe_ex
        [(''name'', JString ''Dal''), (''description'', JString ''Lentils''),
         (''region'', JString ''North Indian''), (''difficulty'', JString ''Easy''),
         (''prep_time_minutes'', JNumber 10), (''cook_time_minutes'', JNumber 30),
         (''servings'', JNumber 4), (''calories'', JNumber 250), (''rating'', JNumber 4)]
     = [(''name'', JString ''Dal''), (''description'', JString ''Lentils''),
         (''region'', JString ''North Indian''), (''difficulty'', JString ''Easy''),
         (''prep_time_minutes'', JNumber 10), (''cook_time_minutes'', JNumber 30),
         (''servings'', JNumber 4), (''calories'', JNumber 250), (''rating'', JNumber 4)]"
  by (simp add: handleSave_def click_edit_def selected_ex_def dm_init_def recipe_ex_def
      loadRecipes_def get_field_def recipe_props_def js_prop_def unchanged_entries_def)

text \<open>
  C1, amended: a save that passes the guard makes exactly one update call, whose body is
  the whole overlay as it stands; after a successful update the list endpoint is called
  once more with the current page and filter, after a failed one it is not.  The overlay
  is not a set of differences: Edit fills it with the nine basic fields of the selected
  recipe, each equal to the record's own value.
\<close>

theorem handleSave_sends_overlay:
  assumes "selectedRecipe s = Some r" and "editedFields s \<noteq> []"
  shows "update_bodies (snd (handleSave upd lst s)) = [editedFields s]
    \<and> api_calls (snd (handleSave (Inr u) lst s))
        = [UpdateRecipe (recipe_id r) (editedFields s),
           ListRecipes (page s * PAGE_SIZE) PAGE_SIZE (filter_param (filter_val s))]
    \<and> api_calls (snd (handleSave (Inl e) lst s))
        = [UpdateRecipe (recipe_id r) (editedFields s)]
    \<and> (\<not> isEditing s \<longrightarrow>
          map fst (editedFields (click_edit s))
            = [''name'', ''description'', ''region'', ''difficulty'', ''prep_time_minutes'',
               ''cook_time_minutes'', ''servings'', ''calories'', ''rating'']
          \<and> unchanged_entries r (editedFields (click_edit s)) = editedFields (click_edit s))"
proof -
  have a: "update_bodies (snd (handleSave upd lst s)) = [editedFields s]"
    using assms
    by (cases upd; cases lst) (simp_all add: handleSave_def loadRecipes_def)
  have b: "api_calls (snd (handleSave (Inr u) lst s))
        = [UpdateRecipe (recipe_id r) (editedFields s),
           ListRecipes (page s * PAGE_SIZE) PAGE_SIZE (filter_param (filter_val s))]"
    using assms by (cases lst) (simp_all add: handleSave_def loadRecipes_def api_calls_def)
  have c: "api_calls (snd (handleSave (Inl e) lst s))
        = [UpdateRecipe (recipe_id r) (editedFields s)]"
    using assms by (simp add: handleSave_def api_calls_def)
  show ?thesis using a b c click_edit_overlay [OF assms(1)] by blast
qed

theorem handleSave_sends_overlay_witness:
  "selectedRecipe (set_field ''name'' (JString ''Dal Tadka'') (click_edit selected_ex))
     = Some recipe_ex
   \<and> editedFields (set_field ''name'' (JString ''Dal Tadka'') (click_edit selected_ex)) \<noteq> []
   \<and> update_bodies (snd (handleSave (Inr ()) (Inr [])
        (set_field ''name'' (JString ''Dal Tadka'') (click_edit selected_ex))))
       = [[(''name'', JString ''Dal Tadka''), (''description'', JString ''Lentils''),
           (''region'', JString ''North Indian''), (''difficulty'', JString ''Easy''),
           (''prep_time_minutes'', JNumber 10), (''cook_time_minutes'', JNumber 30),
           (''servings'', JNumber 4), (''calories'', JNumber 250), (''rating'', JNumber 4)]]"
proof -
  let ?s = "set_field ''name'' (JString ''Dal Tadka'') (click_edit selected_ex)"
  have h1: "selectedRecipe ?s = Some recipe_ex"
    by (simp add: set_field_def click_edit_def selected_ex_def dm_init_def)
  have h2: "editedFields ?s \<noteq> []"
    by (simp add: set_field_def click_edit_def selected_ex_def dm_init_def)
  have h3: "editedFields ?s
       = [(''name'', JString ''Dal Tadka''), (''description'', JString ''Lentils''),
           (''region'', JString ''North Indian''), (''difficulty'', JString ''Easy''),
           (''prep_time_minutes'', JNumber 10), (''cook_time_minutes'', JNumber 30),
           (''servings'', JNumber 4), (''calories'', JNumber 250), (''rating'', JNumber 4)]"
    by (simp add: set_field_def click_edit_def selected_ex_def dm_init_def recipe_ex_def)
  show ?thesis
    using h1 h2 h3 handleSave_sends_overlay [OF h1 h2, of "Inr ()" "Inr []"] by simp
qed

subsection \<open>Save without changes\<close>

lemma loadRecipes_editor_frame:
  "isEditing (fst (loadRecipes lst s)) = isEditing s"
  "editedFields (fst (loadRecipes lst s)) = editedFields s"
  "selectedRecipe (fst (loadRecipes lst s)) = selectedRecipe s"
  by (cases lst; simp add: loadRecipes_def Let_def)+

lemma loadStatistics_editor_frame:
  "isEditing (fst (loadStatistics st s)) = isEditing s"
  "editedFields (fst (loadStatistics st s)) = editedFields s"
  "selectedRecipe (fst (loadStatistics st s)) = selectedRecipe s"
  by (cases st; simp add: loadStatistics_def)+

lemma reload_effect_editor_frame:
  "isEditing (fst (reload_effect lst st s)) = isEditing s"
  "editedFields (fst (reload_effect lst st s)) = editedFields s"
  "selectedRecipe (fst (reload_effect lst st s)) = selectedRecipe s"
  by (simp_all add: reload_effect_def split_beta loadRecipes_editor_frame
      loadStatistics_editor_frame)

lemma set_page_filter_editor_frame:
  "isEditing (fst (set_page_filter p f lst st s)) = isEditing s"
  "editedFields (fst (set_page_filter p f lst st s)) = editedFields s"
  "selectedRecipe (fst (set_page_filter p f lst st s)) = selectedRecipe s"
  by (simp_all add: set_page_filter_def reload_effect_editor_frame)

text \<open>While the editor is open the overlay has at least one key and a recipe is selected.\<close>

lemma dm_step_overlay:
  assumes "isEditing s \<longrightarrow> editedFields s \<noteq> [] \<and> selectedRecipe s \<noteq> None"
  shows "isEditing (fst (dm_step a s)) \<longrightarrow>
           editedFields (fst (dm_step a s)) \<noteq> [] \<and> selectedRecipe (fst (dm_step a s)) \<noteq> None"
proof (cases a)
  case (Mount lst st)
  then show ?thesis using assms by (simp add: reload_effect_editor_frame)
next
  case (ChangeFilter v lst st)
  then show ?thesis using assms by (simp add: change_filter_def set_page_filter_editor_frame)
next
  case (ClickPrevious lst st)
  then show ?thesis using assms by (simp add: click_previous_def set_page_filter_editor_frame)
next
  case (ClickNext lst st)
  then show ?thesis using assms by (simp add: click_next_def set_page_filter_editor_frame)
next
  case (TypeSearch q)
  then show ?thesis using assms by simp
next
  case (SubmitSearch resp)
  then show ?thesis using assms by (cases resp) (simp_all add: handleSearch_def)
next
  case ClickClearSearch
  then show ?thesis using assms by (simp add: clearSearch_def)
next
  case (SelectRecipe i)
  then show ?thesis using assms by (simp add: select_recipe_def)
next
  case ClickEdit
  then show ?thesis using assms by (cases "selectedRecipe s") (simp_all add: click_edit_def)
next
  case (SetField k v)
  then show ?thesis using assms by (simp add: set_field_def)
next
  case (ClickSave upd lst)
  then show ?thesis
    using assms
    by (cases upd; cases "selectedRecipe s")
      (simp_all add: click_save_def handleSave_def split_beta loadRecipes_editor_frame)
next
  case ClickCancel
  then show ?thesis using assms by (simp add: click_cancel_def)
qed

lemma dm_run_overlay:
  "isEditing s \<longrightarrow> editedFields s \<noteq> [] \<and> selectedRecipe s \<noteq> None \<Longrightarrow>
   isEditing (fst (dm_run acts s)) \<longrightarrow>
     editedFields (fst (dm_run acts s)) \<noteq> [] \<and> selectedRecipe (fst (dm_run acts s)) \<noteq> None"
proof (induction acts arbitrary: s)
  case Nil
  then show ?case by simp
next
  case (Cons a acts)
  have "isEditing (fst (dm_step a s)) \<longrightarrow>
      editedFields (fst (dm_step a s)) \<noteq> [] \<and> selectedRecipe (fst (dm_step a s)) \<noteq> None"
    using Cons.prems by (rule dm_step_overlay)
  then have "isEditing (fst (dm_run acts (fst (dm_step a s)))) \<longrightarrow>
      editedFields (fst (dm_run acts (fst (dm_step a s)))) \<noteq> []
      \<and> selectedRecipe (fst (dm_run acts (fst (dm_step a s)))) \<noteq> None"
    by (rule Cons.IH)
  then show ?case by (simp add: split_beta)
qed

text \<open>
  C3, as stated, fails: after mounting, selecting a recipe and pressing Edit, no entry of
  the overlay differs from the record, so the set of edited fields is empty; pressing
  Save at once still calls the update endpoint, with all nine fields, and reloads the
  list.
\<close>

theorem save_without_changes_calls_update:
  "changed_entries recipe_ex (editedFields (fst (dm_run open_editor dm_init))) = []
   \<and> api_calls (snd (dm_run edit_then_save dm_init))
       = [ListRecipes 0 20 None, GetStatistics,
          UpdateRecipe (JNumber 7)
            [(''name'', JString ''Dal''), (''description'', JString ''Lentils''),
             (''region'', JString ''North Indian''), (''difficulty'', JString ''Easy''),
             (''prep_time_minutes'', JNumber 10), (''cook_time_minutes'', JNumber 30),
             (''servings'', JNumber 4), (''calories'', JNumber 250), (''rating'', JNumber 4)],
          ListRecipes 0 20 None]"
  by (simp add: edit_then_save_def open_editor_def dm_init_def recipe_ex_def
      reload_effect_def loadRecipes_def loadStatistics_def select_recipe_def
      displayed_list_def click_edit_def click_save_def handleSave_def PAGE_SIZE_def
      filter_param_def api_calls_def changed_entries_def get_field_def recipe_props_def
      js_prop_def)

text \<open>
  C3, amended: \<open>handleSave\<close> makes no call and changes nothing when no recipe is selected
  or the overlay object has no keys, and a click on Save does nothing while the button
  is not on the screen.  That guard never fires from the button: in every state reached
  from the initial one in which Save is rendered, the overlay has keys (Edit puts nine
  there), and the click makes exactly one update call with the whole overlay, whether or
  not the user changed a field.
\<close>

theorem handleSave_guard_and_save_button:
  "(selectedRecipe s = None \<or> editedFields s = [] \<longrightarrow> handleSave upd lst s = (s, []))
   \<and> (\<not> save_rendered s \<longrightarrow> click_save upd lst s = (s, []))
   \<and> (save_rendered (fst (dm_run acts dm_init)) \<longrightarrow>
        editedFields (fst (dm_run acts dm_init)) \<noteq> []
        \<and> update_bodies (snd (click_save upd lst (fst (dm_run acts dm_init))))
            = [editedFields (fst (dm_run acts dm_init))])"
proof -
  let ?s = "fst (dm_run acts dm_init)"
  have g: "selectedRecipe s = None \<or> editedFields s = [] \<longrightarrow> handleSave upd lst s = (s, [])"
    by (auto simp: handleSave_def split: option.splits)
  have n: "\<not> save_rendered s \<longrightarrow> click_save upd lst s = (s, [])"
    by (simp add: save_rendered_def click_save_def)
  have i: "isEditing ?s \<longrightarrow> editedFields ?s \<noteq> [] \<and> selectedRecipe ?s \<noteq> None"
    by (rule dm_run_overlay) (simp add: dm_init_def)
  have r: "update_bodies (snd (click_save upd lst ?s)) = [editedFields ?s]"
    if sr: "save_rendered ?s"
  proof -
    from sr obtain rc where rc: "selectedRecipe ?s = Some rc" and ed: "isEditing ?s"
      by (auto simp: save_rendered_def)
    from i ed have ne: "editedFields ?s \<noteq> []" by simp
    have "click_save upd lst ?s = handleSave upd lst ?s"
      using rc ed by (simp add: click_save_def)
    moreover have "update_bodies (snd (handleSave upd lst ?s)) = [editedFields ?s]"
      using rc ne by (cases upd; cases lst) (simp_all add: handleSave_def loadRecipes_def)
    ultimately show ?thesis by simp
  qed
  have e: "save_rendered ?s \<longrightarrow> editedFields ?s \<noteq> []"
    using i by (simp add: save_rendered_def)
  show ?thesis using g n e r by blast
qed

theorem handleSave_guard_and_save_button_witness:
  "selectedRecipe selected_ex = Some recipe_ex \<and> editedFields selected_ex = []
   \<and> handleSave (Inr ()) (Inr []) selected_ex = (selected_ex, [])
   \<and> handleSave (Inr ()) (Inr []) dm_init = (dm_init, [])
   \<and> click_save (Inr ()) (Inr []) selected_ex = (selected_ex, [])
   \<and> save_rendered (fst (dm_run open_editor dm_init))
   \<and> update_bodies (snd (click_save (Inr ()) (Inr []) (fst (dm_run open_editor dm_init))))
       = [[(''name'', JString ''Dal''), (''description'', JString ''Lentils''),
           (''region'', JString ''North Indian''), (''difficulty'', JString ''Easy''),
           (''prep_time_minutes'', JNumber 10), (''cook_time_minutes'', JNumber 30),
           (''servings'', JNumber 4), (''calories'', JNumber 250), (''rating'', JNumber 4)]]"
proof -
  let ?o = "fst (dm_run open_editor dm_init)"
  have h1: "selectedRecipe selected_ex = Some recipe_ex \<and> editedFields selected_ex = []"
    by (simp add: selected_ex_def dm_init_def)
  have h2: "selectedRecipe dm_init = None" by (simp add: dm_init_def)
  have h3: "\<not> save_rendered selected_ex"
    by (simp add: save_rendered_def selected_ex_def dm_init_def)
  have h4: "save_rendered ?o"
    by (simp add: save_rendered_def open_editor_def dm_init_def reload_effect_def
        loadRecipes_def loadStatistics_def select_recipe_def displayed_list_def
        click_edit_def)
  have h5: "editedFields ?o
      = [(''name'', JString ''Dal''), (''description'', JString ''Lentils''),
         (''region'', JString ''North Indian''), (''difficulty'', JString ''Easy''),
         (''prep_time_minutes'', JNumber 10), (''cook_time_minutes'', JNumber 30),
         (''servings'', JNumber 4), (''calories'', JNumber 250), (''rating'', JNumber 4)]"
    by (simp add: open_editor_def dm_init_def reload_effect_def loadRecipes_def
        loadStatistics_def select_recipe_def displayed_list_def click_edit_def
        recipe_ex_def)
  have c1: "handleSave (Inr ()) (Inr []) selected_ex = (selected_ex, [])"
    using h1 handleSave_guard_and_save_button
      [where s = selected_ex and upd = "Inr ()" and lst = "Inr []" and acts = "[]"]
    by blast
  have c2: "handleSave (Inr ()) (Inr []) dm_init = (dm_init, [])"
    using h2 handleSave_guard_and_save_button
      [where s = dm_init and upd = "Inr ()" and lst = "Inr []" and acts = "[]"]
    by blast
  have c3: "click_save (Inr ()) (Inr []) selected_ex = (selected_ex, [])"
    using h3 handleSave_guard_and_save_button
      [where s = selected_ex and upd = "Inr ()" and lst = "Inr []" and acts = "[]"]
    by blast
  have c4: "update_bodies (snd (click_save (Inr ()) (Inr []) ?o)) = [editedFields ?o]"
    using h4 handleSave_guard_and_save_button
      [where s = dm_init and upd = "Inr ()" and lst = "Inr []" and acts = open_editor]
    by blast
  show ?thesis using h1 h4 c1 c2 c3 c4 unfolding h5 by blast
qed

subsection \<open>What the loaders leave alone\<close>

lemma loadRecipes_frame:
  "page (fst (loadRecipes lst s)) = page s"
  "filter_val (fst (loadRecipes lst s)) = filter_val s"
  "isSearching (fst (loadRecipes lst s)) = isSearching s"
  by (cases lst; simp add: loadRecipes_def Let_def)+

lemma loadStatistics_frame:
  "page (fst (loadStatistics st s)) = page s"
  "filter_val (fst (loadStatistics st s)) = filter_val s"
  "isSearching (fst (loadStatistics st s)) = isSearching s"
  "recipes (fst (loadStatistics st s)) = recipes s"
  by (cases st; simp add: loadStatistics_def)+

lemma loadStatistics_skips: "skips (snd (loadStatistics st s)) = []"
  by (cases st) (simp_all add: loadStatistics_def)

lemma skips_append: "skips (xs @ ys) = skips xs @ skips ys"
  by (induction xs rule: skips.induct) simp_all

lemma reload_effect_frame:
  "page (fst (reload_effect lst st s)) = page s"
  "filter_val (fst (reload_effect lst st s)) = filter_val s"
  "isSearching (fst (reload_effect lst st s)) = isSearching s"
  by (simp_all add: reload_effect_def split_beta loadRecipes_frame loadStatistics_frame)

lemma reload_effect_skips: "skips (snd (reload_effect lst st s)) = [page s * PAGE_SIZE]"
  by (simp add: reload_effect_def split_beta skips_append loadRecipes_skips
      loadStatistics_skips)

lemma set_page_filter_page: "page (fst (set_page_filter p f lst st s)) = p"
  by (simp add: set_page_filter_def reload_effect_frame)

lemma set_page_filter_skips:
  "skips (snd (set_page_filter p f lst st s)) = [] \<or>
   skips (snd (set_page_filter p f lst st s)) = [p * PAGE_SIZE]"
  by (simp add: set_page_filter_def reload_effect_skips)

subsection \<open>Search in the data manager\<close>

text \<open>
  C5, as stated, fails: after mounting, filtering by status and moving to the second
  page, a name search shows its one result, yet the page index is still 1 and the
  status filter is still \<open>pending\<close>.
\<close>

theorem search_keeps_page_and_filter:
  "page (fst (dm_run browse_then_search dm_init)) = 1
   \<and> filter_val (fst (dm_run browse_then_search dm_init)) = ''pending''
   \<and> displayed_list (fst (dm_run browse_then_search dm_init)) = [recipe_ex]"
  by (simp add: browse_then_search_def dm_init_def full_page_def reload_effect_def
      loadRecipes_def loadStatistics_def change_filter_def click_next_def set_page_filter_def
      filter_rendered_def pagination_rendered_def next_disabled_def PAGE_SIZE_def
      handleSearch_def trim_def is_space_def displayed_list_def filter_param_def)

text \<open>
  C5, amended: a successful search with a non-blank query makes one search call, shows
  the results in place of the page, and takes the pagination bar and the status filter
  off the screen; the page index, the filter value and the loaded page are kept, and
  Clear brings the same page and filter back.
\<close>

theorem handleSearch_hides_controls:
  assumes "trim (searchQuery s) \<noteq> []"
  shows "displayed_list (fst (handleSearch (Inr rs) s)) = rs
    \<and> \<not> pagination_rendered (fst (handleSearch (Inr rs) s))
    \<and> \<not> filter_rendered (fst (handleSearch (Inr rs) s))
    \<and> page (fst (handleSearch (Inr rs) s)) = page s
    \<and> filter_val (fst (handleSearch (Inr rs) s)) = filter_val s
    \<and> recipes (fst (handleSearch (Inr rs) s)) = recipes s
    \<and> snd (handleSearch (Inr rs) s) = [SearchRecipes (searchQuery s)]
    \<and> page (clearSearch (fst (handleSearch (Inr rs) s))) = page s
    \<and> filter_val (clearSearch (fst (handleSearch (Inr rs) s))) = filter_val s
    \<and> displayed_list (clearSearch (fst (handleSearch (Inr rs) s))) = recipes s"
  using assms
  by (simp add: handleSearch_def displayed_list_def pagination_rendered_def
      filter_rendered_def clearSearch_def)

theorem handleSearch_hides_controls_witness:
  "trim (searchQuery (dm_init\<lparr>page := 3, filter_val := ''validated'', searchQuery := '' dal ''\<rparr>))
     \<noteq> []
   \<and> displayed_list (fst (handleSearch (Inr [recipe_ex])
        (dm_init\<lparr>page := 3, filter_val := ''validated'', searchQuery := '' dal ''\<rparr>)))
      = [recipe_ex]
   \<and> page (fst (handleSearch (Inr [recipe_ex])
        (dm_init\<lparr>page := 3, filter_val := ''validated'', searchQuery := '' dal ''\<rparr>))) = 3"
proof -
  let ?s = "dm_init\<lparr>page := 3, filter_val := ''validated'', searchQuery := '' dal ''\<rparr>"
  have h: "trim (searchQuery ?s) \<noteq> []"
    by (simp add: trim_def is_space_def)
  show ?thesis
    using h handleSearch_hides_controls [OF h, of "[recipe_ex]"] by simp
qed

subsection \<open>Pagination\<close>



subsection \<open>The page index\<close>

lemma dm_step_page_nonneg: "0 \<le> page s \<Longrightarrow> 0 \<le> page (fst (dm_step a s))"
proof (cases a)
  case (Mount lst st)
  then show "0 \<le> page s \<Longrightarrow> ?thesis" by (simp add: reload_effect_frame)
next
  case (ChangeFilter v lst st)
  then show "0 \<le> page s \<Longrightarrow> ?thesis"
    by (simp add: change_filter_def set_page_filter_page)
next
  case (ClickPrevious lst st)
  then show "0 \<le> page s \<Longrightarrow> ?thesis"
    by (simp add: click_previous_def set_page_filter_page)
next
  case (ClickNext lst st)
  then show "0 \<le> page s \<Longrightarrow> ?thesis"
    by (simp add: click_next_def set_page_filter_page)
next
  case (SubmitSearch resp)
  then show "0 \<le> page s \<Longrightarrow> ?thesis"
    by (cases resp) (simp_all add: handleSearch_def)
next
  case (ClickSave upd lst)
  then show "0 \<le> page s \<Longrightarrow> ?thesis"
    by (cases upd)
      (simp_all add: click_save_def handleSave_def split_beta loadRecipes_frame
        split: option.splits)
qed (simp_all add: clearSearch_def select_recipe_def click_edit_def set_field_def
      click_cancel_def split: option.splits)

lemma dm_step_skips_nonneg:
  assumes "0 \<le> page s"
  shows "list_all (\<lambda>k. 0 \<le> k) (skips (snd (dm_step a s)))"
proof (cases a)
  case (Mount lst st)
  then show ?thesis using assms by (simp add: reload_effect_skips PAGE_SIZE_def)
next
  case (ChangeFilter v lst st)
  then show ?thesis
    using set_page_filter_skips [of 0 v lst st s] by (auto simp: change_filter_def)
next
  case (ClickPrevious lst st)
  then show ?thesis
    using set_page_filter_skips [of "max 0 (page s - 1)" "filter_val s" lst st s]
    by (auto simp: click_previous_def PAGE_SIZE_def)
next
  case (ClickNext lst st)
  then show ?thesis
    using assms set_page_filter_skips [of "page s + 1" "filter_val s" lst st s]
    by (auto simp: click_next_def PAGE_SIZE_def)
next
  case (SubmitSearch resp)
  then show ?thesis by (cases resp) (simp_all add: handleSearch_def)
next
  case (ClickSave upd lst)
  then show ?thesis
    using assms
    by (cases upd)
      (simp_all add: click_save_def handleSave_def split_beta loadRecipes_skips
        PAGE_SIZE_def split: option.splits)
qed simp_all

lemma dm_run_page_nonneg: "0 \<le> page s \<Longrightarrow> 0 \<le> page (fst (dm_run acts s))"
proof (induction acts arbitrary: s)
  case Nil
  then show ?case by simp
next
  case (Cons a acts)
  from Cons.prems have "0 \<le> page (fst (dm_step a s))" by (rule dm_step_page_nonneg)
  then have "0 \<le> page (fst (dm_run acts (fst (dm_step a s))))" by (rule Cons.IH)
  then show ?case by (simp add: split_beta)
qed

lemma dm_run_skips_nonneg:
  "0 \<le> page s \<Longrightarrow> list_all (\<lambda>k. 0 \<le> k) (skips (snd (dm_run acts s)))"
proof (induction acts arbitrary: s)
  case Nil
  then show ?case by simp
next
  case (Cons a acts)
  from Cons.prems have p: "0 \<le> page (fst (dm_step a s))" by (rule dm_step_page_nonneg)
  have "list_all (\<lambda>k. 0 \<le> k) (skips (snd (dm_run acts (fst (dm_step a s)))))"
    using p by (rule Cons.IH)
  moreover have "list_all (\<lambda>k. 0 \<le> k) (skips (snd (dm_step a s)))"
    using Cons.prems by (rule dm_step_skips_nonneg)
  ultimately show ?case by (simp add: split_beta skips_append)
qed

text \<open>
  C10: the page index starts at 0 and is non-negative in every state reached from the
  initial one by any sequence of user actions and backend answers; every skip offset
  sent to the list endpoint on the way is non-negative.  Previous is disabled exactly at
  page 0 and then does nothing; otherwise, when rendered, it sets the page to
  \<open>max 0 (page - 1)\<close>; a change of the status filter sets the page to 0.
\<close>

theorem page_never_negative:
  "page dm_init = 0
   \<and> 0 \<le> page (fst (dm_run acts dm_init))
   \<and> (\<forall>k \<in> set (skips (snd (dm_run acts dm_init))). 0 \<le> k)
   \<and> (previous_disabled s \<longleftrightarrow> page s = 0)
   \<and> (previous_disabled s \<longrightarrow> click_previous lst st s = (s, []))
   \<and> (pagination_rendered s \<longrightarrow> \<not> previous_disabled s \<longrightarrow>
        page (fst (click_previous lst st s)) = max 0 (page s - 1))
   \<and> (filter_rendered s \<longrightarrow> page (fst (change_filter v lst st s)) = 0)"
proof -
  have i: "page dm_init = 0" by (simp add: dm_init_def)
  have p: "0 \<le> page (fst (dm_run acts dm_init))"
    by (rule dm_run_page_nonneg) (simp add: i)
  have "list_all (\<lambda>k. 0 \<le> k) (skips (snd (dm_run acts dm_init)))"
    by (rule dm_run_skips_nonneg) (simp add: i)
  then have k: "\<forall>k \<in> set (skips (snd (dm_run acts dm_init))). 0 \<le> k"
    by (simp add: list_all_iff)
  have d: "previous_disabled s \<longrightarrow> click_previous lst st s = (s, [])"
    by (simp add: click_previous_def)
  have c: "pagination_rendered s \<longrightarrow> \<not> previous_disabled s \<longrightarrow>
        page (fst (click_previous lst st s)) = max 0 (page s - 1)"
    by (simp add: click_previous_def set_page_filter_page)
  have f: "filter_rendered s \<longrightarrow> page (fst (change_filter v lst st s)) = 0"
    by (simp add: change_filter_def set_page_filter_page)
  show ?thesis using i p k d c f by (simp add: previous_disabled_def)
qed

theorem page_never_negative_witness:
  "skips (snd (dm_run browse_back dm_init)) = [0, 20, 0]
   \<and> 0 \<le> page (fst (dm_run browse_back dm_init))
   \<and> page (fst (dm_run browse_back dm_init)) = 0
   \<and> pagination_rendered (dm_init\<lparr>page := 2\<rparr>) \<and> \<not> previous_disabled (dm_init\<lparr>page := 2\<rparr>)
   \<and> page (fst (click_previous (Inr []) (Inl NonError) (dm_init\<lparr>page := 2\<rparr>))) = 1
   \<and> filter_rendered (dm_init\<lparr>page := 2\<rparr>)
   \<and> page (fst (change_filter ''pending'' (Inr []) (Inl NonError) (dm_init\<lparr>page := 2\<rparr>))) = 0"
proof -
  have e: "skips (snd (dm_run browse_back dm_init)) = [0, 20, 0]
      \<and> page (fst (dm_run browse_back dm_init)) = 0"
    by (simp add: browse_back_def dm_init_def full_page_def reload_effect_def
      loadRecipes_def loadStatistics_def click_next_def click_previous_def
      set_page_filter_def pagination_rendered_def next_disabled_def previous_disabled_def
      PAGE_SIZE_def filter_param_def)
  have r: "pagination_rendered (dm_init\<lparr>page := 2\<rparr>) \<and> filter_rendered (dm_init\<lparr>page := 2\<rparr>)
      \<and> \<not> previous_disabled (dm_init\<lparr>page := 2\<rparr>)"
    by (simp add: pagination_rendered_def filter_rendered_def previous_disabled_def
        dm_init_def)
  show ?thesis
    using e r
      page_never_negative [of browse_back "dm_init\<lparr>page := 2\<rparr>" "Inr []" "Inl NonError"
        "''pending''"]
    by simp
qed

subsection \<open>Helper facts about the polling timer\<close>

lemma poll_tick_interval:
  "interval (fst (poll_tick env s)) = (if stops env then None else interval s)"
  by (simp add: poll_tick_def stops_def split: sum.splits option.splits list.splits)

lemma poll_tick_job_fetch:
  "job_fetch_times (map (Pair t) (snd (poll_tick env s))) = [t]"
  by (simp add: poll_tick_def job_fetch_times_def split: sum.splits option.splits list.splits)

lemma poll_tick_stops_events:
  "stops env \<Longrightarrow>
     \<exists>j. snd (poll_tick env s) = [FetchJobs, GetJobLogs j 20, ClearInterval]"
  by (auto simp: poll_tick_def stops_def split: sum.splits option.splits list.splits)

lemma poll_run_no_timer: "interval s = None \<Longrightarrow> poll_run t envs s = (s, [])"
  by (cases envs) simp_all

lemma poll_run_stop:
  assumes "interval s = Some d" and "stops env"
  shows "poll_run t (env # post) s
           = (fst (poll_tick env s), map (Pair (t + d)) (snd (poll_tick env s)))"
proof -
  have "interval (fst (poll_tick env s)) = None"
    using assms(2) by (simp add: poll_tick_interval)
  then have "poll_run (t + d) post (fst (poll_tick env s)) = (fst (poll_tick env s), [])"
    by (rule poll_run_no_timer)
  then show ?thesis using assms(1) by (simp add: split_beta)
qed

lemma poll_run_continue:
  assumes "interval s = Some d" and "list_all (\<lambda>e. \<not> stops e) pre"
  shows "interval (fst (poll_run t pre s)) = Some d
    \<and> job_fetch_times (snd (poll_run t pre s)) = map (\<lambda>k. t + k * d) [1..<Suc (length pre)]
    \<and> poll_run t (pre @ rest) s
        = (fst (poll_run (t + length pre * d) rest (fst (poll_run t pre s))),
           snd (poll_run t pre s)
             @ snd (poll_run (t + length pre * d) rest (fst (poll_run t pre s))))"
  using assms
proof (induction pre arbitrary: s t)
  case Nil
  then show ?case by (simp add: job_fetch_times_def)
next
  case (Cons env pre)
  let ?s1 = "fst (poll_tick env s)"
  have i1: "interval ?s1 = Some d"
    using Cons.prems by (simp add: poll_tick_interval)
  have ns: "list_all (\<lambda>e. \<not> stops e) pre"
    using Cons.prems by simp
  note ih = Cons.IH [OF i1 ns, of "t + d"]
  have up: "[1..<Suc (Suc (length pre))] = 1 # map Suc [1..<Suc (length pre)]"
    by (simp add: upt_conv_Cons map_Suc_upt del: upt_Suc)
  have idx: "map (\<lambda>k. t + k * d) [1..<Suc (Suc (length pre))]
      = (t + d) # map (\<lambda>k. t + d + k * d) [1..<Suc (length pre)]"
    unfolding up by (simp add: comp_def add.assoc)
  have ft: "job_fetch_times (xs @ ys) = job_fetch_times xs @ job_fetch_times ys" for xs ys
    by (simp add: job_fetch_times_def)
  have run: "poll_run t ((env # pre) @ rest) s
      = (fst (poll_run (t + d) (pre @ rest) ?s1),
         map (Pair (t + d)) (snd (poll_tick env s)) @ snd (poll_run (t + d) (pre @ rest) ?s1))"
    for rest
    using Cons.prems(1) by (simp add: split_beta)
  have tm: "t + d + length pre * d = t + length (env # pre) * d"
    by simp
  have a: "interval (fst (poll_run t (env # pre) s)) = Some d"
    using run [of "[]"] ih by simp
  have b: "job_fetch_times (snd (poll_run t (env # pre) s))
      = map (\<lambda>k. t + k * d) [1..<Suc (length (env # pre))]"
    using run [of "[]"] ih idx by (simp add: ft poll_tick_job_fetch)
  have c: "poll_run t ((env # pre) @ rest) s
        = (fst (poll_run (t + length (env # pre) * d) rest (fst (poll_run t (env # pre) s))),
           snd (poll_run t (env # pre) s)
             @ snd (poll_run (t + length (env # pre) * d) rest
                      (fst (poll_run t (env # pre) s))))"
    using run [of "[]"] run [of rest] ih unfolding tm by simp
  show ?case using a b c by blast
qed

subsection \<open>Generation polling\<close>

text \<open>
  C2, as stated, fails: when the jobs request reports a completed job but the logs
  request of the same cycle is rejected, the timer is not cleared and the next cycle
  fetches the job and its logs again.
\<close>

theorem polling_survives_failed_log_fetch:
  "terminal (status job_completed)
   \<and> snd (poll_run 0 [env_done_logs_fail, env_done_logs_fail] polling_ex)
       = [(2000, FetchJobs), (2000, GetJobLogs (JNumber 1) 20), (2000, ConsoleError),
          (4000, FetchJobs), (4000, GetJobLogs (JNumber 1) 20), (4000, ConsoleError)]
   \<and> interval (fst (poll_run 0 [env_done_logs_fail, env_done_logs_fail] polling_ex))
       = Some 2000"
  by (simp add: polling_ex_def handleGenerate_def sg_ready_def sg_init_def POLL_MS_def
      env_done_logs_fail_def job_completed_def poll_tick_def terminal_def)

text \<open>
  C2, amended: a started generation registers a timer of 2000 ms.  In a run of the timer
  whose callbacks do not overlap, as long as no cycle both fetches a latest job with a
  terminal status and fetches its logs successfully, the timer stays registered and the
  jobs endpoint is fetched at every multiple of the period; the first cycle that does
  both clears the timer, and whatever might follow, the run makes no further fetch: its
  effects are exactly those up to and including that cycle, ending in \<open>clearInterval\<close>.
\<close>

theorem polling_stops_exactly_on_terminal:
  assumes "interval s = Some d" and "list_all (\<lambda>e. \<not> stops e) pre"
  shows "interval (fst (poll_run t pre s)) = Some d
    \<and> job_fetch_times (snd (poll_run t pre s)) = map (\<lambda>k. t + k * d) [1..<Suc (length pre)]
    \<and> (stops env \<longrightarrow>
          interval (fst (poll_run t (pre @ env # post) s)) = None
          \<and> snd (poll_run t (pre @ env # post) s) = snd (poll_run t (pre @ [env]) s)
          \<and> (\<exists>j. snd (poll_run t (pre @ env # post) s)
                 = snd (poll_run t pre s)
                   @ map (Pair (t + Suc (length pre) * d))
                       [FetchJobs, GetJobLogs j 20, ClearInterval]))
    \<and> (selectedRecipe_sg s0 \<noteq> None \<longrightarrow>
          interval (fst (handleGenerate (Inr u) s0)) = Some 2000)"
proof -
  let ?s1 = "fst (poll_run t pre s)"
  let ?t1 = "t + length pre * d"
  have keep: "interval ?s1 = Some d"
    using poll_run_continue [OF assms] by blast
  have times: "job_fetch_times (snd (poll_run t pre s))
      = map (\<lambda>k. t + k * d) [1..<Suc (length pre)]"
    using poll_run_continue [OF assms] by blast
  have app: "poll_run t (pre @ rest) s
      = (fst (poll_run ?t1 rest ?s1), snd (poll_run t pre s) @ snd (poll_run ?t1 rest ?s1))"
    for rest
    using poll_run_continue [OF assms] by blast
  have stop: "stops env \<Longrightarrow>
      interval (fst (poll_run t (pre @ env # post) s)) = None
      \<and> snd (poll_run t (pre @ env # post) s) = snd (poll_run t (pre @ [env]) s)
      \<and> (\<exists>j. snd (poll_run t (pre @ env # post) s)
             = snd (poll_run t pre s)
               @ map (Pair (t + Suc (length pre) * d))
                   [FetchJobs, GetJobLogs j 20, ClearInterval])"
  proof -
    assume st: "stops env"
    have r: "poll_run ?t1 (env # rest) ?s1
        = (fst (poll_tick env ?s1), map (Pair (?t1 + d)) (snd (poll_tick env ?s1)))" for rest
      using keep st by (rule poll_run_stop)
    obtain j where j: "snd (poll_tick env ?s1) = [FetchJobs, GetJobLogs j 20, ClearInterval]"
      using poll_tick_stops_events [OF st] by blast
    have tm: "?t1 + d = t + Suc (length pre) * d" by simp
    have i: "interval (fst (poll_tick env ?s1)) = None"
      using st by (simp add: poll_tick_interval)
    have e1: "snd (poll_run t (pre @ env # post) s)
        = snd (poll_run t pre s) @ map (Pair (?t1 + d)) (snd (poll_tick env ?s1))"
      by (simp add: app [of "env # post"] r [of post] del: poll_run.simps)
    have e2: "snd (poll_run t (pre @ [env]) s)
        = snd (poll_run t pre s) @ map (Pair (?t1 + d)) (snd (poll_tick env ?s1))"
      by (simp add: app [of "[env]"] r [of "[]"] del: poll_run.simps)
    have e3: "interval (fst (poll_run t (pre @ env # post) s)) = None"
      by (simp add: app [of "env # post"] r [of post] i del: poll_run.simps)
    show ?thesis
      using e1 e2 e3 j unfolding tm by simp
  qed
  have start: "selectedRecipe_sg s0 \<noteq> None \<Longrightarrow>
      interval (fst (handleGenerate (Inr u) s0)) = Some 2000"
    by (auto simp: handleGenerate_def POLL_MS_def Let_def)
  show ?thesis using keep times stop start by blast
qed

theorem polling_stops_exactly_on_terminal_witness:
  "interval polling_ex = Some 2000
   \<and> list_all (\<lambda>e. \<not> stops e) [env_running_a, env_done_logs_fail]
   \<and> stops env_done
   \<and> job_fetch_times (snd (poll_run 0 [env_running_a, env_done_logs_fail] polling_ex))
       = [2000, 4000]
   \<and> snd (poll_run 0 ([env_running_a, env_done_logs_fail] @ env_done # [env_running_b])
            polling_ex)
       = snd (poll_run 0 ([env_running_a, env_done_logs_fail] @ [env_done]) polling_ex)
   \<and> interval (fst (poll_run 0
        ([env_running_a, env_done_logs_fail] @ env_done # [env_running_b]) polling_ex)) = None"
proof -
  have h1: "interval polling_ex = Some 2000"
    by (simp add: polling_ex_def handleGenerate_def sg_ready_def sg_init_def POLL_MS_def)
  have h2: "list_all (\<lambda>e. \<not> stops e) [env_running_a, env_done_logs_fail]"
    by (simp add: stops_def env_running_a_def env_done_logs_fail_def job_running_def
        job_completed_def terminal_def)
  have h3: "stops env_done"
    by (simp add: stops_def env_done_def job_completed_def terminal_def)
  have n: "map (\<lambda>k. 0 + k * 2000) [1..<Suc (length [env_running_a, env_done_logs_fail])]
      = [2000, 4000::nat]"
    by (simp add: upt_rec)
  show ?thesis
    using h1 h2 h3 n
      polling_stops_exactly_on_terminal [OF h1 h2, of 0 env_done "[env_running_b]"]
    by simp
qed

text \<open>
  C4, as stated, fails: the first cycle displays the log it fetched; the second cycle
  fetches a different log for the same job and displays only that one, so the entry
  shown after the first cycle is gone.
\<close>

theorem logs_are_replaced_not_appended:
  "logs (fst (poll_run 0 [env_running_a] polling_ex)) = [log_a]
   \<and> logs (fst (poll_run 0 [env_running_a, env_running_b] polling_ex)) = [log_b]
   \<and> log_a \<noteq> log_b"
  by (simp add: polling_ex_def handleGenerate_def sg_ready_def sg_init_def POLL_MS_def
      env_running_a_def env_running_b_def job_running_def poll_tick_def terminal_def
      log_a_def log_b_def)

text \<open>
  C4, amended: in a polling cycle that finds a latest job and fetches its logs
  successfully, the displayed log list becomes exactly the fetched list (earlier entries
  stay only if the backend returns them again); in every other cycle the displayed list
  is left as it was.
\<close>

theorem poll_tick_sets_logs:
  "(jobs_resp env = Inr (Some (j # js)) \<longrightarrow> logs_resp env = Inr ls \<longrightarrow>
      logs (fst (poll_tick env s)) = ls)
   \<and> (jobs_resp env = Inr (Some (j # js)) \<longrightarrow> logs_resp env = Inl e \<longrightarrow>
      logs (fst (poll_tick env s)) = logs s)
   \<and> (jobs_resp env = Inr (Some []) \<or> jobs_resp env = Inr None \<or> jobs_resp env = Inl e \<longrightarrow>
      logs (fst (poll_tick env s)) = logs s)"
  by (auto simp: poll_tick_def)

theorem poll_tick_sets_logs_witness:
  "jobs_resp env_done = Inr (Some (job_completed # []))
   \<and> logs_resp env_done = Inr [log_a, log_b]
   \<and> logs (fst (poll_tick env_done polling_ex)) = [log_a, log_b]
   \<and> jobs_resp env_done_logs_fail = Inr (Some (job_completed # []))
   \<and> logs_resp env_done_logs_fail = Inl (Error ''Failed to fetch'')
   \<and> logs (fst (poll_tick env_done_logs_fail polling_ex)) = logs polling_ex"
proof -
  have h: "jobs_resp env_done = Inr (Some (job_completed # []))
      \<and> logs_resp env_done = Inr [log_a, log_b]
      \<and> jobs_resp env_done_logs_fail = Inr (Some (job_completed # []))
      \<and> logs_resp env_done_logs_fail = Inl (Error ''Failed to fetch'')"
    by (simp add: env_done_def env_done_logs_fail_def)
  show ?thesis
    using h
      poll_tick_sets_logs [of env_done job_completed "[]" "[log_a, log_b]" polling_ex]
      poll_tick_sets_logs [of env_done_logs_fail job_completed "[]" _ polling_ex
        "Error ''Failed to fetch''"]
    by simp
qed

subsection \<open>Failures\<close>

text \<open>
  C8, as stated, fails: a rejected statistics request is caught, but it is only written
  to the console; no alert is raised and the component state, hence the screen, is
  unchanged.
\<close>

theorem statistics_failure_is_silent:
  "loadStatistics (Inl (Error ''Network Error'')) selected_ex
     = (selected_ex, [GetStatistics, ConsoleError])
   \<and> alerts (snd (loadStatistics (Inl (Error ''Network Error'')) selected_ex)) = []"
  by (simp add: loadStatistics_def)

text \<open>
  C8, amended: a failed list, search or update call of the data manager is caught and
  raises exactly one alert carrying the error message.  A failed generation start is
  caught and shown in the message banner as an error, and no polling timer is started.
  A failed search of the generation tab is caught and stored as the error message, which
  the banner shows when a recipe is selected.  A failed statistics call is caught and
  only logged to the console.  In each of these cases the failing endpoint is called
  once, so nothing is retried, and a failed update leaves the whole component state,
  with the editing flag and the overlay, as it was.  The jobs and logs requests of the
  polling timer are apart: a rejected one is caught and only logged, the state with the
  timer stays as it was, and the next run of the timer asks again.
\<close>

theorem failures_are_caught_once:
  "alerts (snd (loadRecipes (Inl e) s))
     = [''Failed to load recipes: '' @ err_message e ''Unknown error'']
   \<and> api_calls (snd (loadRecipes (Inl e) s))
       = [ListRecipes (page s * PAGE_SIZE) PAGE_SIZE (filter_param (filter_val s))]
   \<and> loadStatistics (Inl e) s = (s, [GetStatistics, ConsoleError])
   \<and> (trim (searchQuery s) \<noteq> [] \<longrightarrow>
        alerts (snd (handleSearch (Inl e) s))
          = [''Search failed: '' @ err_message e ''Unknown error'']
        \<and> api_calls (snd (handleSearch (Inl e) s)) = [SearchRecipes (searchQuery s)])
   \<and> (selectedRecipe s = Some r \<longrightarrow> editedFields s \<noteq> [] \<longrightarrow>
        handleSave (Inl e) lst s
          = (s, [UpdateRecipe (recipe_id r) (editedFields s),
                 Alert (''Failed to update: '' @ err_message e ''Unknown error'')]))
   \<and> (trim (searchQuery_sg g) \<noteq> [] \<longrightarrow>
        message (fst (handleSearch_sg (Inl e) g)) = Some (error, err_message e ''Search failed'')
        \<and> snd (handleSearch_sg (Inl e) g) = [SearchRecipes (searchQuery_sg g)]
        \<and> (selectedRecipe_sg g = Some r \<longrightarrow>
             message_banner (fst (handleSearch_sg (Inl e) g))
               = Some (error, err_message e ''Search failed'')))
   \<and> (selectedRecipe_sg g = Some r \<longrightarrow>
        message_banner (fst (handleGenerate (Inl e) g))
          = Some (error, err_message e ''Generation failed'')
        \<and> \<not> isGenerating (fst (handleGenerate (Inl e) g))
        \<and> interval (fst (handleGenerate (Inl e) g)) = interval g
        \<and> snd (handleGenerate (Inl e) g)
            = [StartSpecificGeneration (name r) (fixMainImage g) (fixIngredientsImage g)
                 (fixStepsImages g) (fixStepsText g) (fixIngredientsText g)])
   \<and> (jobs_resp env = Inl e \<longrightarrow> poll_tick env g = (g, [FetchJobs, ConsoleError]))
   \<and> (jobs_resp env = Inr (Some (j # js)) \<longrightarrow> logs_resp env = Inl e \<longrightarrow>
        poll_tick env g = (g, [FetchJobs, GetJobLogs (job_id j) 20, ConsoleError]))"
proof -
  have a: "alerts (snd (loadRecipes (Inl e) s))
     = [''Failed to load recipes: '' @ err_message e ''Unknown error'']"
    by (simp add: loadRecipes_def)
  have b: "loadStatistics (Inl e) s = (s, [GetStatistics, ConsoleError])"
    by (simp add: loadStatistics_def)
  have c: "trim (searchQuery s) \<noteq> [] \<longrightarrow>
        alerts (snd (handleSearch (Inl e) s))
          = [''Search failed: '' @ err_message e ''Unknown error'']
        \<and> api_calls (snd (handleSearch (Inl e) s)) = [SearchRecipes (searchQuery s)]"
    by (simp add: handleSearch_def api_calls_def)
  have d: "selectedRecipe s = Some r \<longrightarrow> editedFields s \<noteq> [] \<longrightarrow>
        handleSave (Inl e) lst s
          = (s, [UpdateRecipe (recipe_id r) (editedFields s),
                 Alert (''Failed to update: '' @ err_message e ''Unknown error'')])"
    by (simp add: handleSave_def)
  have f: "trim (searchQuery_sg g) \<noteq> [] \<longrightarrow>
        message (fst (handleSearch_sg (Inl e) g)) = Some (error, err_message e ''Search failed'')
        \<and> snd (handleSearch_sg (Inl e) g) = [SearchRecipes (searchQuery_sg g)]
        \<and> (selectedRecipe_sg g = Some r \<longrightarrow>
             message_banner (fst (handleSearch_sg (Inl e) g))
               = Some (error, err_message e ''Search failed''))"
    by (simp add: handleSearch_sg_def message_banner_def)
  have h: "selectedRecipe_sg g = Some r \<longrightarrow>
        message_banner (fst (handleGenerate (Inl e) g))
          = Some (error, err_message e ''Generation failed'')
        \<and> \<not> isGenerating (fst (handleGenerate (Inl e) g))
        \<and> interval (fst (handleGenerate (Inl e) g)) = interval g
        \<and> snd (handleGenerate (Inl e) g)
            = [StartSpecificGeneration (name r) (fixMainImage g) (fixIngredientsImage g)
                 (fixStepsImages g) (fixStepsText g) (fixIngredientsText g)]"
    by (simp add: handleGenerate_def Let_def message_banner_def)
  have p1: "jobs_resp env = Inl e \<longrightarrow> poll_tick env g = (g, [FetchJobs, ConsoleError])"
    by (simp add: poll_tick_def)
  have p2: "jobs_resp env = Inr (Some (j # js)) \<longrightarrow> logs_resp env = Inl e \<longrightarrow>
        poll_tick env g = (g, [FetchJobs, GetJobLogs (job_id j) 20, ConsoleError])"
    by (simp add: poll_tick_def)
  show ?thesis using a b c d f h p1 p2 loadRecipes_calls [of "Inl e" s] by blast
qed

theorem failures_are_caught_once_witness:
  "trim (searchQuery (click_edit (selected_ex\<lparr>searchQuery := ''dal''\<rparr>))) \<noteq> []
   \<and> alerts (snd (handleSearch (Inl (Error ''Network Error''))
        (click_edit (selected_ex\<lparr>searchQuery := ''dal''\<rparr>))))
       = [''Search failed: Network Error'']
   \<and> selectedRecipe (click_edit (selected_ex\<lparr>searchQuery := ''dal''\<rparr>)) = Some recipe_ex
   \<and> editedFields (click_edit (selected_ex\<lparr>searchQuery := ''dal''\<rparr>)) \<noteq> []
   \<and> fst (handleSave (Inl (Error ''Network Error'')) (Inr [])
        (click_edit (selected_ex\<lparr>searchQuery := ''dal''\<rparr>)))
       = click_edit (selected_ex\<lparr>searchQuery := ''dal''\<rparr>)
   \<and> trim (searchQuery_sg (sg_ready\<lparr>searchQuery_sg := ''dal''\<rparr>)) \<noteq> []
   \<and> selectedRecipe_sg (sg_ready\<lparr>searchQuery_sg := ''dal''\<rparr>) = Some recipe_ex
   \<and> message_banner (fst (handleSearch_sg (Inl (Error ''Network Error''))
        (sg_ready\<lparr>searchQuery_sg := ''dal''\<rparr>)))
       = Some (error, ''Network Error'')
   \<and> message_banner (fst (handleGenerate (Inl (Error ''Network Error''))
        (sg_ready\<lparr>searchQuery_sg := ''dal''\<rparr>)))
       = Some (error, ''Network Error'')
   \<and> jobs_resp env_done_logs_fail = Inr (Some (job_completed # []))
   \<and> logs_resp env_done_logs_fail = Inl (Error ''Failed to fetch'')
   \<and> fst (poll_tick env_done_logs_fail polling_ex) = polling_ex"
proof -
  let ?s = "click_edit (selected_ex\<lparr>searchQuery := ''dal''\<rparr>)"
  let ?g = "sg_ready\<lparr>searchQuery_sg := ''dal''\<rparr>"
  let ?e = "Error ''Network Error''"
  have h1: "trim (searchQuery ?s) \<noteq> []"
    by (simp add: click_edit_def selected_ex_def dm_init_def trim_def is_space_def)
  have h2: "selectedRecipe ?s = Some recipe_ex"
    by (simp add: click_edit_def selected_ex_def dm_init_def)
  have h3: "editedFields ?s \<noteq> []"
    by (simp add: click_edit_def selected_ex_def dm_init_def)
  have h4: "trim (searchQuery_sg ?g) \<noteq> []"
    by (simp add: trim_def is_space_def)
  have h5: "selectedRecipe_sg ?g = Some recipe_ex"
    by (simp add: sg_ready_def)
  have h6: "jobs_resp env_done_logs_fail = Inr (Some (job_completed # []))"
    "logs_resp env_done_logs_fail = Inl (Error ''Failed to fetch'')"
    by (simp_all add: env_done_logs_fail_def)
  note t = failures_are_caught_once
    [where e = "?e" and s = "?s" and r = recipe_ex and lst = "Inr []" and g = "?g"
       and env = env_running_a and j = job_running and js = "[]"]
  note u = failures_are_caught_once
    [where e = "Error ''Failed to fetch''" and s = dm_init and r = recipe_ex
       and lst = "Inr []" and g = polling_ex and env = env_done_logs_fail
       and j = job_completed and js = "[]"]
  have c1: "alerts (snd (handleSearch (Inl ?e) ?s))
      = [''Search failed: '' @ err_message ?e ''Unknown error'']"
    using t h1 by blast
  have c2: "fst (handleSave (Inl ?e) (Inr []) ?s) = ?s"
    using t h2 h3 by (metis fst_conv)
  have c3: "message_banner (fst (handleSearch_sg (Inl ?e) ?g))
      = Some (error, err_message ?e ''Search failed'')"
    using t h4 h5 by blast
  have c4: "message_banner (fst (handleGenerate (Inl ?e) ?g))
      = Some (error, err_message ?e ''Generation failed'')"
    using t h5 by blast
  have c5: "fst (poll_tick env_done_logs_fail polling_ex) = polling_ex"
    using u h6 by (metis fst_conv)
  have d1: "alerts (snd (handleSearch (Inl ?e) ?s)) = [''Search failed: Network Error'']"
    using c1 by simp
  have d3: "message_banner (fst (handleSearch_sg (Inl ?e) ?g)) = Some (error, ''Network Error'')"
    using c3 by simp
  have d4: "message_banner (fst (handleGenerate (Inl ?e) ?g)) = Some (error, ''Network Error'')"
    using c4 by simp
  show ?thesis
    using h1 h2 h3 h4 h5 h6 d1 c2 d3 d4 c5 by blast
qed

text \<open>
  The banner is not on the screen while no recipe is selected: a failed search in that
  state stores its message, and nothing shows it.
\<close>

lemma failed_search_without_selection:
  "message (fst (handleSearch_sg (Inl (Error ''Network Error''))
       (sg_init\<lparr>searchQuery_sg := ''dal''\<rparr>)))
     = Some (error, ''Network Error'')
   \<and> message_banner (fst (handleSearch_sg (Inl (Error ''Network Error''))
       (sg_init\<lparr>searchQuery_sg := ''dal''\<rparr>))) = None
   \<and> snd (handleSearch_sg (Inl (Error ''Network Error'')) (sg_init\<lparr>searchQuery_sg := ''dal''\<rparr>))
       = [SearchRecipes ''dal'']"
  by (simp add: handleSearch_sg_def message_banner_def sg_init_def trim_def is_space_def)

subsection \<open>Starting a generation\<close>



subsection \<open>Image fallback\<close>

lemma displayed_images_handler:
  assumes "el \<in> set (displayed_images s)"
  shows "onError el =
    Some (case site el of
            EditMainPreview \<Rightarrow> svg_open @ ''Invalid URL'' @ svg_close
          | ViewMainImage \<Rightarrow> svg_open @ ''Error Loading'' @ svg_close
          | EditIngredientsPreview \<Rightarrow> svg_open @ ''Invalid URL'' @ svg_close
          | ViewIngredientsImage \<Rightarrow> svg_open @ ''Error Loading'' @ svg_close
          | EditStepThumb \<Rightarrow> svg_open_small @ ''!'' @ svg_close
          | ViewStepImage \<Rightarrow> svg_open @ ''!'' @ svg_close
          | StatusMainImage \<Rightarrow> svg_open @ ''No Image'' @ svg_close
          | StatusIngredientsImage \<Rightarrow> svg_open @ ''No Image'' @ svg_close
          | StatusStepImage \<Rightarrow> svg_open @ ''Error'' @ svg_close)"
proof (cases "selectedRecipe s")
  case None
  then show ?thesis using assms by (simp add: displayed_images_def)
next
  case (Some r)
  then show ?thesis
    using assms
    by (auto simp: displayed_images_def one_img_def Let_def split: if_splits)
qed

text \<open>
  C7: every image rendered for a selected recipe, whether main, ingredients or step
  image and whether in view or in edit mode, carries an error handler.  When its URL
  fails to load, the error event ends without an exception and leaves the element with
  the inline SVG data URI written in the source at that place as its source, and with
  nothing else changed; should the event fire again on the result, nothing changes any
  more.
\<close>

theorem image_error_sets_placeholder:
  assumes \<open>el \<in> set (displayed_images s)\<close>
  shows \<open>\<exists>p. onError el = Some p
    \<and> fire_error el = Inr (el\<lparr>src := JString p\<rparr>)
    \<and> fire_error (el\<lparr>src := JString p\<rparr>) = Inr (el\<lparr>src := JString p\<rparr>)
    \<and> p = (case site el of
            EditMainPreview \<Rightarrow> ''data:image/svg+xml,<svg xmlns="http://www.w3.org/2000/svg" width="100" height="100"><text x="50%" y="50%" text-anchor="middle" dy=".3em" fill="%23666">Invalid URL</text></svg>''
          | ViewMainImage \<Rightarrow> ''data:image/svg+xml,<svg xmlns="http://www.w3.org/2000/svg" width="100" height="100"><text x="50%" y="50%" text-anchor="middle" dy=".3em" fill="%23666">Error Loading</text></svg>''
          | EditIngredientsPreview \<Rightarrow> ''data:image/svg+xml,<svg xmlns="http://www.w3.org/2000/svg" width="100" height="100"><text x="50%" y="50%" text-anchor="middle" dy=".3em" fill="%23666">Invalid URL</text></svg>''
          | ViewIngredientsImage \<Rightarrow> ''data:image/svg+xml,<svg xmlns="http://www.w3.org/2000/svg" width="100" height="100"><text x="50%" y="50%" text-anchor="middle" dy=".3em" fill="%23666">Error Loading</text></svg>''
          | EditStepThumb \<Rightarrow> ''data:image/svg+xml,<svg xmlns="http://www.w3.org/2000/svg" width="50" height="50"><text x="50%" y="50%" text-anchor="middle" dy=".3em" fill="%23666" font-size="10">!</text></svg>''
          | ViewStepImage \<Rightarrow> ''data:image/svg+xml,<svg xmlns="http://www.w3.org/2000/svg" width="100" height="100"><text x="50%" y="50%" text-anchor="middle" dy=".3em" fill="%23666">!</text></svg>''
          | StatusMainImage \<Rightarrow> ''data:image/svg+xml,<svg xmlns="http://www.w3.org/2000/svg" width="100" height="100"><text x="50%" y="50%" text-anchor="middle" dy=".3em" fill="%23666">No Image</text></svg>''
          | StatusIngredientsImage \<Rightarrow> ''data:image/svg+xml,<svg xmlns="http://www.w3.org/2000/svg" width="100" height="100"><text x="50%" y="50%" text-anchor="middle" dy=".3em" fill="%23666">No Image</text></svg>''
          | StatusStepImage \<Rightarrow> ''data:image/svg+xml,<svg xmlns="http://www.w3.org/2000/svg" width="100" height="100"><text x="50%" y="50%" text-anchor="middle" dy=".3em" fill="%23666">Error</text></svg>'')\<close>
proof -
  obtain p where p: "onError el = Some p"
    using displayed_images_handler [OF assms] by blast
  have f: "fire_error el = Inr (el\<lparr>src := JString p\<rparr>)"
    by (simp add: fire_error_def assign_src_def p)
  have g: "fire_error (el\<lparr>src := JString p\<rparr>) = Inr (el\<lparr>src := JString p\<rparr>)"
    by (simp add: fire_error_def assign_src_def p)
  have l: \<open>p = (case site el of
            EditMainPreview \<Rightarrow> ''data:image/svg+xml,<svg xmlns="http://www.w3.org/2000/svg" width="100" height="100"><text x="50%" y="50%" text-anchor="middle" dy=".3em" fill="%23666">Invalid URL</text></svg>''
          | ViewMainImage \<Rightarrow> ''data:image/svg+xml,<svg xmlns="http://www.w3.org/2000/svg" width="100" height="100"><text x="50%" y="50%" text-anchor="middle" dy=".3em" fill="%23666">Error Loading</text></svg>''
          | EditIngredientsPreview \<Rightarrow> ''data:image/svg+xml,<svg xmlns="http://www.w3.org/2000/svg" width="100" height="100"><text x="50%" y="50%" text-anchor="middle" dy=".3em" fill="%23666">Invalid URL</text></svg>''
          | ViewIngredientsImage \<Rightarrow> ''data:image/svg+xml,<svg xmlns="http://www.w3.org/2000/svg" width="100" height="100"><text x="50%" y="50%" text-anchor="middle" dy=".3em" fill="%23666">Error Loading</text></svg>''
          | EditStepThumb \<Rightarrow> ''data:image/svg+xml,<svg xmlns="http://www.w3.org/2000/svg" width="50" height="50"><text x="50%" y="50%" text-anchor="middle" dy=".3em" fill="%23666" font-size="10">!</text></svg>''
          | ViewStepImage \<Rightarrow> ''data:image/svg+xml,<svg xmlns="http://www.w3.org/2000/svg" width="100" height="100"><text x="50%" y="50%" text-anchor="middle" dy=".3em" fill="%23666">!</text></svg>''
          | StatusMainImage \<Rightarrow> ''data:image/svg+xml,<svg xmlns="http://www.w3.org/2000/svg" width="100" height="100"><text x="50%" y="50%" text-anchor="middle" dy=".3em" fill="%23666">No Image</text></svg>''
          | StatusIngredientsImage \<Rightarrow> ''data:image/svg+xml,<svg xmlns="http://www.w3.org/2000/svg" width="100" height="100"><text x="50%" y="50%" text-anchor="middle" dy=".3em" fill="%23666">No Image</text></svg>''
          | StatusStepImage \<Rightarrow> ''data:image/svg+xml,<svg xmlns="http://www.w3.org/2000/svg" width="100" height="100"><text x="50%" y="50%" text-anchor="middle" dy=".3em" fill="%23666">Error</text></svg>'')\<close>
    using displayed_images_handler [OF assms] p
    by (cases "site el") (simp_all add: svg_open_def svg_open_small_def svg_close_def)
  show ?thesis using p f g l by blast
qed

theorem image_error_sets_placeholder_witness:
  \<open>\<lparr>site = EditStepThumb, src = JString ''http://x/s1.jpg'',
      onError = Some ''data:image/svg+xml,<svg xmlns="http://www.w3.org/2000/svg" width="50" height="50"><text x="50%" y="50%" text-anchor="middle" dy=".3em" fill="%23666" font-size="10">!</text></svg>''\<rparr>
     \<in> set (displayed_images (click_edit selected_ex))
   \<and> fire_error
        \<lparr>site = EditStepThumb, src = JString ''http://x/s1.jpg'',
          onError = Some ''data:image/svg+xml,<svg xmlns="http://www.w3.org/2000/svg" width="50" height="50"><text x="50%" y="50%" text-anchor="middle" dy=".3em" fill="%23666" font-size="10">!</text></svg>''\<rparr>
       = Inr \<lparr>site = EditStepThumb,
              src = JString ''data:image/svg+xml,<svg xmlns="http://www.w3.org/2000/svg" width="50" height="50"><text x="50%" y="50%" text-anchor="middle" dy=".3em" fill="%23666" font-size="10">!</text></svg>'',
              onError = Some ''data:image/svg+xml,<svg xmlns="http://www.w3.org/2000/svg" width="50" height="50"><text x="50%" y="50%" text-anchor="middle" dy=".3em" fill="%23666" font-size="10">!</text></svg>''\<rparr>
   \<and> map site (displayed_images (click_edit selected_ex))
       = [EditMainPreview, EditStepThumb, StatusMainImage, StatusStepImage]
   \<and> map site (displayed_images selected_ex)
       = [ViewMainImage, ViewStepImage, StatusMainImage, StatusStepImage]\<close>
proof -
  let ?el = \<open>\<lparr>site = EditStepThumb, src = JString ''http://x/s1.jpg'',
      onError = Some ''data:image/svg+xml,<svg xmlns="http://www.w3.org/2000/svg" width="50" height="50"><text x="50%" y="50%" text-anchor="middle" dy=".3em" fill="%23666" font-size="10">!</text></svg>''\<rparr>\<close>
  have h: "?el \<in> set (displayed_images (click_edit selected_ex))"
    by (simp add: displayed_images_def click_edit_def selected_ex_def dm_init_def
        recipe_ex_def one_img_def js_prop_def coalesce_def svg_open_small_def svg_close_def)
  have m: "map site (displayed_images (click_edit selected_ex))
       = [EditMainPreview, EditStepThumb, StatusMainImage, StatusStepImage]
     \<and> map site (displayed_images selected_ex)
       = [ViewMainImage, ViewStepImage, StatusMainImage, StatusStepImage]"
    by (simp add: displayed_images_def click_edit_def selected_ex_def dm_init_def
        recipe_ex_def one_img_def js_prop_def coalesce_def)
  obtain p where p: "onError ?el = Some p" "fire_error ?el = Inr (?el\<lparr>src := JString p\<rparr>)"
    using image_error_sets_placeholder [OF h] by blast
  from p(1) have \<open>p = ''data:image/svg+xml,<svg xmlns="http://www.w3.org/2000/svg" width="50" height="50"><text x="50%" y="50%" text-anchor="middle" dy=".3em" fill="%23666" font-size="10">!</text></svg>''\<close>
    by simp
  with p(2) h m show ?thesis by simp
qed

end
